theory Spec2Isabelle
  imports Main "HOL-Library.Word"
begin

section \<open>Notes application with webhook notification\<close>

text \<open>
  A shallow embedding of the server side of the notes application:
  \<^item> \<^verbatim>\<open>src/server/webhookService.ts\<close> (\<^verbatim>\<open>WebhookService.updateWebhook\<close>),
  \<^item> the note router (\<^verbatim>\<open>addNote\<close>, \<^verbatim>\<open>updateNote\<close>, \<^verbatim>\<open>findAllNotes\<close>, \<^verbatim>\<open>deleteNote\<close>,
    \<^verbatim>\<open>updateHost\<close>),
  \<^item> the webhook event router (\<^verbatim>\<open>setEvent\<close>, \<^verbatim>\<open>getEvents\<close>),
  \<^item> the webhook info router (\<^verbatim>\<open>setWebhookURL\<close>, \<^verbatim>\<open>findWebhookInto\<close>).

  Every procedure is a function from the world before the call to an outcome and the world
  after it. The world holds the three tables, the HTTP requests handed to \<^verbatim>\<open>fetch\<close> and the
  lines written with \<^verbatim>\<open>console.error\<close>. An exception is the \<open>Inl\<close> branch of the outcome;
  the world next to it is the world at the moment of the throw (nothing is rolled back).
  What the outside decides during one call (the URL parser, the network, the clock, the
  identifier the store generates) is read from an environment record.
\<close>

subsection \<open>JavaScript strings\<close>

text \<open>
  A JavaScript string is a sequence of UTF-16 code units; \<^verbatim>\<open>length\<close> counts code units.
  \<^verbatim>\<open>String.prototype.trim\<close> removes WhiteSpace and LineTerminator code points from both ends.
\<close>

type_synonym jsstring = "16 word list"

definition ascii :: "string \<Rightarrow> jsstring" where
  "ascii s = map (\<lambda>c. word_of_nat (of_char c)) s"

definition js_whitespace :: "16 word \<Rightarrow> bool" where
  "js_whitespace c \<longleftrightarrow>
     c \<in> set [0x0009, 0x000A, 0x000B, 0x000C, 0x000D, 0x0020, 0x00A0, 0x1680,
              0x2028, 0x2029, 0x202F, 0x205F, 0x3000, 0xFEFF]
     \<or> (0x2000 \<le> c \<and> c \<le> 0x200A)"

definition trim :: "jsstring \<Rightarrow> jsstring" where
  "trim s = rev (dropWhile js_whitespace (rev (dropWhile js_whitespace s)))"

subsection \<open>Data model\<close>

datatype EventType = NOTE_CREATE | NOTE_READ | NOTE_UPDATE | NOTE_DELETE

fun EventType_name :: "EventType \<Rightarrow> string" where
  "EventType_name NOTE_CREATE = ''NOTE_CREATE''"
| "EventType_name NOTE_READ = ''NOTE_READ''"
| "EventType_name NOTE_UPDATE = ''NOTE_UPDATE''"
| "EventType_name NOTE_DELETE = ''NOTE_DELETE''"

text \<open>
  Modelled from the spec: the database schema (the models \<^verbatim>\<open>Note\<close>, \<^verbatim>\<open>WebhookInfo\<close> and
  \<^verbatim>\<open>WebhookEvent\<close> and the enum \<^verbatim>\<open>EventType\<close>), which is not among the sources. The rows
  carry the columns the routers read and write, under the routers' names; the identifier
  columns of the two webhook tables are told apart as \<open>info_ID\<close> and \<open>event_ID\<close>.
  Timestamps are milliseconds since the epoch. The unique keys are the ones the routers name
  in their \<^verbatim>\<open>where\<close> clauses: \<^verbatim>\<open>ID\<close> for a note, \<^verbatim>\<open>userID\<close> for a configuration,
  \<^verbatim>\<open>webhookInfoID_event\<close> for an event setting.
\<close>

record Note =
  ID :: jsstring
  title :: jsstring
  data :: jsstring
  updatedOn :: int

record WebhookInfo =
  info_ID :: jsstring
  userID :: jsstring
  hostURL :: jsstring

record WebhookEvent =
  event_ID :: jsstring
  webhookInfoID :: jsstring
  event :: EventType
  enabled :: bool

record DB =
  note_table :: "Note list"
  webhookInfo :: "WebhookInfo list"
  webhookEvent :: "WebhookEvent list"

subsection \<open>Errors, effects and the environment\<close>

datatype ZodIssue = too_small nat | invalid_url

datatype TRPC_code = BAD_REQUEST | UNAUTHORIZED

datatype error =
    TRPCError TRPC_code string
      \<comment> \<open>thrown by a procedure or by the session check: code and message\<close>
  | InputError ZodIssue
      \<comment> \<open>the input parser rejected the input; tRPC answers BAD_REQUEST\<close>
  | RecordNotFound
      \<comment> \<open>the store's \<^verbatim>\<open>update\<close> or \<^verbatim>\<open>delete\<close> found no row for the \<^verbatim>\<open>where\<close> key\<close>
  | Invalid_URL
      \<comment> \<open>the TypeError of \<^verbatim>\<open>new URL(url)\<close>\<close>

text \<open>
  The body handed to \<^verbatim>\<open>fetch\<close> is \<^verbatim>\<open>JSON.stringify\<close> of an object literal. The model keeps the
  object as a tree: its keys in order, and the \<^verbatim>\<open>data\<close> argument (of the generic type \<^verbatim>\<open>T\<close>)
  as a leaf.
\<close>

datatype 'a JSON =
    JSON_string string
  | JSON_number int
  | JSON_value 'a
  | JSON_object "(string \<times> 'a JSON) list"

record 'a Request =
  url :: jsstring
  http_method :: string
  headers :: "(string \<times> string) list"
  body :: "'a JSON"

text \<open>
  \<^verbatim>\<open>fetch\<close> is taken to settle: it resolves to a response or it rejects (a network error, or
  the runtime's own timeout).
\<close>

datatype FetchResult =
    Response nat jsstring  \<comment> \<open>\<^verbatim>\<open>res.status\<close> and \<^verbatim>\<open>res.statusText\<close>\<close>
  | Rejected jsstring      \<comment> \<open>\<^verbatim>\<open>fetch\<close> threw or its promise rejected\<close>

datatype LogLine =
    Webhook_request_failed nat jsstring
  | Webhook_request_error jsstring

text \<open>
  What one call reads from outside the program: the platform's URL constructor and
  \<^verbatim>\<open>fetch\<close>, the two clock readings (\<^verbatim>\<open>Date.now()\<close> in the webhook service, \<^verbatim>\<open>new Date()\<close>
  in \<^verbatim>\<open>addNote\<close>) and the identifier the store generates. They are parameters: every theorem
  holds for all of them.
\<close>

record 'a Env =
  new_URL :: "jsstring \<Rightarrow> jsstring option"
    \<comment> \<open>\<^verbatim>\<open>new URL(s).toString()\<close>; \<open>None\<close> when the constructor throws\<close>
  fetch :: "'a Request \<Rightarrow> FetchResult"
  Date_now :: int
  new_Date :: int
  newID :: jsstring
    \<comment> \<open>the identifier the store gives to a row created during this call\<close>

record 'a World =
  db :: DB
  outbox :: "'a Request list"
  console :: "LogLine list"

type_synonym ('r, 'a) result = "(error + 'r) \<times> 'a World"

text \<open>
  Modelled from the spec: the context type \<^verbatim>\<open>TRPCContext\<close> of \<^verbatim>\<open>../trpc\<close>, which is not among
  the sources. The routers read \<^verbatim>\<open>ctx.session\<close> (absent for a caller who is not signed in),
  \<^verbatim>\<open>ctx.session.user.id\<close> and the database handle \<^verbatim>\<open>ctx.db\<close>; the tables behind the handle
  are the \<open>db\<close> of the world.
\<close>

record Session =
  user_id :: jsstring  \<comment> \<open>\<^verbatim>\<open>ctx.session.user.id\<close>\<close>

record TRPCContext =
  session :: "Session option"

subsection \<open>\<^verbatim>\<open>WebhookService.updateWebhook\<close>\<close>

definition ok :: "nat \<Rightarrow> bool" where
  "ok status \<longleftrightarrow> 200 \<le> status \<and> status \<le> 299"

definition updateWebhook ::
  "'a Env \<Rightarrow> jsstring \<Rightarrow> EventType \<Rightarrow> 'a \<Rightarrow> 'a World \<Rightarrow> (unit, 'a) result" where
  "updateWebhook env u type dat w =
     (case new_URL env u of
        None \<Rightarrow> (Inl Invalid_URL, w)
      | Some urlObj \<Rightarrow>
          let req = \<lparr>url = urlObj, http_method = ''POST'',
                     headers = [(''Content-Type'', ''application/json'')],
                     body = JSON_object
                       [(''type'', JSON_string (EventType_name type)),
                        (''timestamp'', JSON_number (Date_now env)),
                        (''data'', JSON_value dat)]\<rparr>;
              w1 = w\<lparr>outbox := outbox w @ [req]\<rparr>
          in (case fetch env req of
                Rejected err \<Rightarrow>
                  (Inr (), w1\<lparr>console := console w1 @ [Webhook_request_error err]\<rparr>)
              | Response status statusText \<Rightarrow>
                  if \<not> ok status
                  then (Inr (), w1\<lparr>console := console w1 @
                                       [Webhook_request_failed status statusText]\<rparr>)
                  else (Inr (), w1)))"

subsection \<open>The store's operations\<close>

text \<open>
  The operations of the ORM client the routers call, on tables kept as lists of rows in
  insertion order. \<^verbatim>\<open>update\<close> and \<^verbatim>\<open>delete\<close> throw when no row has the key; \<^verbatim>\<open>upsert\<close> updates
  the row with the key or appends a new one. A \<^verbatim>\<open>where\<close> clause on a unique key addresses
  the rows with that key, of which a table with unique keys has at most one; \<^verbatim>\<open>findUnique\<close>
  and \<^verbatim>\<open>findFirst\<close> return the first of them, and \<^verbatim>\<open>include: { webhookEvents: true }\<close> adds
  the event settings that refer to the configuration.
\<close>

definition note_create :: "'a Env \<Rightarrow> jsstring \<Rightarrow> jsstring \<Rightarrow> int \<Rightarrow> DB \<Rightarrow> Note \<times> DB" where
  "note_create env d t u s =
     (let n = \<lparr>ID = newID env, title = t, data = d, updatedOn = u\<rparr>
      in (n, s\<lparr>note_table := note_table s @ [n]\<rparr>))"

definition note_update :: "jsstring \<Rightarrow> jsstring \<Rightarrow> DB \<Rightarrow> error + Note \<times> DB" where
  "note_update i d s =
     (case find (\<lambda>n. ID n = i) (note_table s) of
        None \<Rightarrow> Inl RecordNotFound
      | Some n \<Rightarrow>
          Inr (n\<lparr>data := d\<rparr>,
               s\<lparr>note_table := map (\<lambda>m. if ID m = i then m\<lparr>data := d\<rparr> else m) (note_table s)\<rparr>))"

definition note_delete :: "jsstring \<Rightarrow> DB \<Rightarrow> error + Note \<times> DB" where
  "note_delete i s =
     (case find (\<lambda>n. ID n = i) (note_table s) of
        None \<Rightarrow> Inl RecordNotFound
      | Some n \<Rightarrow> Inr (n, s\<lparr>note_table := filter (\<lambda>m. ID m \<noteq> i) (note_table s)\<rparr>))"

definition note_findMany :: "DB \<Rightarrow> Note list" where
  "note_findMany s = note_table s"

definition webhookInfo_find :: "jsstring \<Rightarrow> DB \<Rightarrow> WebhookInfo option" where
  "webhookInfo_find uid s = find (\<lambda>i. userID i = uid) (webhookInfo s)"

definition webhookEvents_of :: "DB \<Rightarrow> WebhookInfo \<Rightarrow> WebhookEvent list" where
  "webhookEvents_of s info = filter (\<lambda>e. webhookInfoID e = info_ID info) (webhookEvent s)"

definition webhookInfo_upsert :: "'a Env \<Rightarrow> jsstring \<Rightarrow> jsstring \<Rightarrow> DB \<Rightarrow> WebhookInfo \<times> DB" where
  "webhookInfo_upsert env uid u s =
     (case find (\<lambda>i. userID i = uid) (webhookInfo s) of
        Some i \<Rightarrow>
          (i\<lparr>hostURL := u\<rparr>,
           s\<lparr>webhookInfo :=
               map (\<lambda>j. if userID j = uid then j\<lparr>hostURL := u\<rparr> else j) (webhookInfo s)\<rparr>)
      | None \<Rightarrow>
          (let i = \<lparr>info_ID = newID env, userID = uid, hostURL = u\<rparr>
           in (i, s\<lparr>webhookInfo := webhookInfo s @ [i]\<rparr>)))"

definition webhookEvent_upsert ::
  "'a Env \<Rightarrow> jsstring \<Rightarrow> EventType \<Rightarrow> bool \<Rightarrow> DB \<Rightarrow> WebhookEvent \<times> DB" where
  "webhookEvent_upsert env iid ev en s =
     (case find (\<lambda>e. webhookInfoID e = iid \<and> event e = ev) (webhookEvent s) of
        Some e \<Rightarrow>
          (e\<lparr>enabled := en\<rparr>,
           s\<lparr>webhookEvent :=
               map (\<lambda>r. if webhookInfoID r = iid \<and> event r = ev then r\<lparr>enabled := en\<rparr> else r)
                 (webhookEvent s)\<rparr>)
      | None \<Rightarrow>
          (let e = \<lparr>event_ID = newID env, webhookInfoID = iid, event = ev, enabled = en\<rparr>
           in (e, s\<lparr>webhookEvent := webhookEvent s @ [e]\<rparr>)))"

subsection \<open>Procedures: session check and input parsers\<close>

text \<open>
  Modelled from the spec: \<^verbatim>\<open>protectedProcedure\<close> of \<^verbatim>\<open>../trpc\<close>, which is not among the
  sources. A call without a session fails before it reaches any data operation.
\<close>

definition protectedProcedure ::
  "TRPCContext \<Rightarrow> 'a World \<Rightarrow> (Session \<Rightarrow> ('r, 'a) result) \<Rightarrow> ('r, 'a) result" where
  "protectedProcedure ctx w handler =
     (case session ctx of
        None \<Rightarrow> (Inl (TRPCError UNAUTHORIZED ''UNAUTHORIZED''), w)
      | Some s \<Rightarrow> handler s)"

text \<open>
  The input parsers: \<^verbatim>\<open>z.string().trim()\<close>, \<^verbatim>\<open>z.string().trim().min(n)\<close> and
  \<^verbatim>\<open>z.string().url()\<close>. A parser returns the transformed input or the issue; the checks run
  in the order written, so the length is that of the trimmed string. The URL check is an
  attempt to construct a URL from the string.
\<close>

definition z_string_trim :: "jsstring \<Rightarrow> error + jsstring" where
  "z_string_trim input = Inr (trim input)"

definition z_string_trim_min :: "nat \<Rightarrow> jsstring \<Rightarrow> error + jsstring" where
  "z_string_trim_min n input =
     (let s = trim input
      in if length s < n then Inl (InputError (too_small n)) else Inr s)"

definition z_string_url :: "'a Env \<Rightarrow> jsstring \<Rightarrow> error + jsstring" where
  "z_string_url env input =
     (case new_URL env input of
        None \<Rightarrow> Inl (InputError invalid_url)
      | Some _ \<Rightarrow> Inr input)"

subsection \<open>The note router\<close>

text \<open>
  The routers instantiate the generic \<^verbatim>\<open>T\<close> of \<^verbatim>\<open>updateHost\<close> at a note and at a list of notes.
\<close>

datatype NoteData = One Note | Many "Note list"

fun updateHost_loop ::
  "'a Env \<Rightarrow> WebhookInfo \<Rightarrow> EventType \<Rightarrow> 'a \<Rightarrow> WebhookEvent list \<Rightarrow> 'a World \<Rightarrow> (unit, 'a) result"
  where
  "updateHost_loop env info type dat [] w = (Inr (), w)"
| "updateHost_loop env info type dat (eventInfo # rest) w =
     (if event eventInfo = type \<and> enabled eventInfo
      then updateWebhook env (hostURL info) type dat w
      else updateHost_loop env info type dat rest w)"

definition updateHost ::
  "'a Env \<Rightarrow> TRPCContext \<Rightarrow> EventType \<Rightarrow> 'a \<Rightarrow> 'a World \<Rightarrow> (unit, 'a) result" where
  "updateHost env ctx type dat w =
     (case session ctx of
        None \<Rightarrow> (Inr (), w)
      | Some s \<Rightarrow>
          (case webhookInfo_find (user_id s) (db w) of
             None \<Rightarrow> (Inr (), w)
           | Some info \<Rightarrow>
               updateHost_loop env info type dat (webhookEvents_of (db w) info) w))"

definition truthy :: "Note \<Rightarrow> bool" where
  "truthy n = True"  \<comment> \<open>an object is truthy\<close>

definition addNote ::
  "NoteData Env \<Rightarrow> TRPCContext \<Rightarrow> jsstring \<Rightarrow> NoteData World \<Rightarrow> (Note, NoteData) result" where
  "addNote env ctx input w =
     protectedProcedure ctx w (\<lambda>s.
       case z_string_trim_min 1 input of
         Inl e \<Rightarrow> (Inl e, w)
       | Inr inp \<Rightarrow>
           (case note_create env inp (ascii ''Some title'') (new_Date env) (db w) of
              (n, s1) \<Rightarrow>
                (case updateHost env ctx NOTE_CREATE (One n) (w\<lparr>db := s1\<rparr>) of
                   (Inl e, w2) \<Rightarrow> (Inl e, w2)
                 | (Inr _, w2) \<Rightarrow> (Inr n, w2))))"

definition updateNote ::
  "NoteData Env \<Rightarrow> TRPCContext \<Rightarrow> jsstring \<times> jsstring \<Rightarrow> NoteData World
     \<Rightarrow> (bool, NoteData) result" where
  "updateNote env ctx input w =
     protectedProcedure ctx w (\<lambda>s.
       case z_string_trim (fst input) of
         Inl e \<Rightarrow> (Inl e, w)
       | Inr input_ID \<Rightarrow>
           (case z_string_trim_min 2 (snd input) of
              Inl e \<Rightarrow> (Inl e, w)
            | Inr input_data \<Rightarrow>
                (let success = False in
                 case note_update input_ID input_data (db w) of
                   Inl e \<Rightarrow> (Inl e, w)
                 | Inr (n, s1) \<Rightarrow>
                     (case updateHost env ctx NOTE_UPDATE (One n) (w\<lparr>db := s1\<rparr>) of
                        (Inl e, w2) \<Rightarrow> (Inl e, w2)
                      | (Inr _, w2) \<Rightarrow>
                          (Inr (if truthy n then True else success), w2)))))"

definition findAllNotes ::
  "NoteData Env \<Rightarrow> TRPCContext \<Rightarrow> NoteData World \<Rightarrow> (Note list, NoteData) result" where
  "findAllNotes env ctx w =
     protectedProcedure ctx w (\<lambda>s.
       let foundNotes = note_findMany (db w) in
       case updateHost env ctx NOTE_READ (Many foundNotes) w of
         (Inl e, w2) \<Rightarrow> (Inl e, w2)
       | (Inr _, w2) \<Rightarrow> (Inr foundNotes, w2))"

definition deleteNote ::
  "NoteData Env \<Rightarrow> TRPCContext \<Rightarrow> jsstring \<Rightarrow> NoteData World \<Rightarrow> (bool, NoteData) result" where
  "deleteNote env ctx input w =
     protectedProcedure ctx w (\<lambda>s.
       case z_string_trim_min 1 input of
         Inl e \<Rightarrow> (Inl e, w)
       | Inr inp \<Rightarrow>
           (let success = False in
            case note_delete inp (db w) of
              Inl e \<Rightarrow> (Inl e, w)
            | Inr (n, s1) \<Rightarrow>
                (let success = (if truthy n then True else success) in
                 case updateHost env ctx NOTE_DELETE (One n) (w\<lparr>db := s1\<rparr>) of
                   (Inl e, w2) \<Rightarrow> (Inl e, w2)
                 | (Inr _, w2) \<Rightarrow> (Inr success, w2))))"

subsection \<open>The webhook event router and the webhook info router\<close>

definition setEvent ::
  "'a Env \<Rightarrow> TRPCContext \<Rightarrow> EventType \<times> bool \<Rightarrow> 'a World \<Rightarrow> (WebhookEvent, 'a) result" where
  "setEvent env ctx input w =
     protectedProcedure ctx w (\<lambda>s.
       let userId = user_id s in
       case webhookInfo_find userId (db w) of
         None \<Rightarrow> (Inl (TRPCError BAD_REQUEST ''Webhook host not configured''), w)
       | Some info \<Rightarrow>
           (case webhookEvent_upsert env (info_ID info) (fst input) (snd input) (db w) of
              (row, s1) \<Rightarrow> (Inr row, w\<lparr>db := s1\<rparr>)))"

definition getEvents ::
  "TRPCContext \<Rightarrow> 'a World \<Rightarrow> (WebhookEvent list, 'a) result" where
  "getEvents ctx w =
     protectedProcedure ctx w (\<lambda>s.
       let userId = user_id s in
       case webhookInfo_find userId (db w) of
         None \<Rightarrow> (Inr [], w)
       | Some info \<Rightarrow> (Inr (webhookEvents_of (db w) info), w))"

definition setWebhookURL ::
  "'a Env \<Rightarrow> TRPCContext \<Rightarrow> jsstring \<Rightarrow> 'a World
     \<Rightarrow> (WebhookInfo \<times> WebhookEvent list, 'a) result" where
  "setWebhookURL env ctx input w =
     protectedProcedure ctx w (\<lambda>s.
       case z_string_url env input of
         Inl e \<Rightarrow> (Inl e, w)
       | Inr inp \<Rightarrow>
           (let userID' = user_id s in
            case webhookInfo_upsert env userID' inp (db w) of
              (record, s1) \<Rightarrow> (Inr (record, webhookEvents_of s1 record), w\<lparr>db := s1\<rparr>)))"

definition findWebhookInto ::
  "TRPCContext \<Rightarrow> 'a World \<Rightarrow> (WebhookInfo option, 'a) result" where
  "findWebhookInto ctx w =
     protectedProcedure ctx w (\<lambda>s. (Inr (webhookInfo_find (user_id s) (db w)), w))"

subsection \<open>Notions used to state the properties\<close>

text \<open>
  The notifier's condition in the words of the specification, stated over the tables: the
  user has a configuration (a \<^verbatim>\<open>webhookInfo\<close> row with the user's id), and it contains an
  event setting (a \<^verbatim>\<open>webhookEvent\<close> row that refers to that row) whose kind is the
  triggering kind and whose enabled flag is true.
\<close>

definition notification_enabled :: "DB \<Rightarrow> jsstring \<Rightarrow> EventType \<Rightarrow> bool" where
  "notification_enabled s uid type \<longleftrightarrow>
     (\<exists>i \<in> set (webhookInfo s). userID i = uid \<and>
        (\<exists>e \<in> set (webhookEvent s).
           webhookInfoID e = info_ID i \<and> event e = type \<and> enabled e))"

text \<open>
  What the notifier's own lookup yields: the row \<^verbatim>\<open>findFirst\<close> returns for the user, when the
  settings included with it hold an enabled one of the kind. In a store with at most one
  configuration per user it is \<open>None\<close> exactly when \<open>notification_enabled\<close> is false
  (\<open>enabled_config_None_iff\<close> below).
\<close>

definition enabled_config :: "DB \<Rightarrow> jsstring \<Rightarrow> EventType \<Rightarrow> WebhookInfo option" where
  "enabled_config s uid type =
     (case webhookInfo_find uid s of
        None \<Rightarrow> None
      | Some info \<Rightarrow>
          if (\<exists>e \<in> set (webhookEvents_of s info). event e = type \<and> enabled e)
          then Some info else None)"

text \<open>
  Every stored URL is one the URL constructor accepts. \<^verbatim>\<open>setWebhookURL\<close> is the only writer of
  \<^verbatim>\<open>hostURL\<close> and checks its input with the same constructor, so the property holds in every
  store the procedures can reach (\<open>calls_URLs_valid\<close> below).
\<close>

definition URLs_valid :: "'a Env \<Rightarrow> DB \<Rightarrow> bool" where
  "URLs_valid env s \<longleftrightarrow> (\<forall>i \<in> set (webhookInfo s). new_URL env (hostURL i) \<noteq> None)"

text \<open>
  The outbound call of the specification: a POST to the configured URL, declared as JSON,
  whose body has the three fields \<^verbatim>\<open>type\<close>, \<^verbatim>\<open>timestamp\<close> and \<^verbatim>\<open>data\<close>; as a predicate on a
  request (\<open>webhook_post\<close>) and as the request itself (\<open>webhook_request\<close>).
\<close>

definition webhook_post :: "'a Env \<Rightarrow> jsstring \<Rightarrow> EventType \<Rightarrow> 'a \<Rightarrow> 'a Request \<Rightarrow> bool" where
  "webhook_post env u type dat r \<longleftrightarrow>
     new_URL env u = Some (url r) \<and>
     http_method r = ''POST'' \<and>
     headers r = [(''Content-Type'', ''application/json'')] \<and>
     body r = JSON_object
       [(''type'', JSON_string (EventType_name type)),
        (''timestamp'', JSON_number (Date_now env)),
        (''data'', JSON_value dat)]"

definition webhook_request :: "'a Env \<Rightarrow> jsstring \<Rightarrow> EventType \<Rightarrow> 'a \<Rightarrow> 'a Request" where
  "webhook_request env h type dat =
     \<lparr>url = h, http_method = ''POST'',
      headers = [(''Content-Type'', ''application/json'')],
      body = JSON_object
        [(''type'', JSON_string (EventType_name type)),
         (''timestamp'', JSON_number (Date_now env)),
         (''data'', JSON_value dat)]\<rparr>"

text \<open>
  What a delivery failure leaves behind: one console line for a rejected \<^verbatim>\<open>fetch\<close>, one for a
  response that is not \<^verbatim>\<open>ok\<close>, nothing for a successful response.
\<close>

definition failure_log :: "FetchResult \<Rightarrow> LogLine list" where
  "failure_log res =
     (case res of
        Rejected err \<Rightarrow> [Webhook_request_error err]
      | Response status statusText \<Rightarrow>
          if ok status then [] else [Webhook_request_failed status statusText])"

text \<open>The note \<^verbatim>\<open>addNote\<close> stores for an input.\<close>

definition created_note :: "'a Env \<Rightarrow> jsstring \<Rightarrow> Note" where
  "created_note env input =
     \<lparr>ID = newID env, title = ascii ''Some title'', data = trim input, updatedOn = new_Date env\<rparr>"

text \<open>
  Between the worlds \<open>w\<close> and \<open>w'\<close>, exactly \<open>k\<close> requests were handed to \<^verbatim>\<open>fetch\<close>, and
  the earlier ones are untouched.
\<close>

definition attempts :: "'a World \<Rightarrow> 'a World \<Rightarrow> nat \<Rightarrow> bool" where
  "attempts w w' k \<longleftrightarrow> (\<exists>rs. outbox w' = outbox w @ rs \<and> length rs = k)"

text \<open>
  The three invariants of the data model: at most one configuration per user, at most one
  event setting per configuration and kind, and no event setting without its configuration.
\<close>

definition store_invariant :: "DB \<Rightarrow> bool" where
  "store_invariant s \<longleftrightarrow>
     distinct (map userID (webhookInfo s)) \<and>
     distinct (map (\<lambda>e. (webhookInfoID e, event e)) (webhookEvent s)) \<and>
     (\<forall>e \<in> set (webhookEvent s). webhookInfoID e \<in> info_ID ` set (webhookInfo s))"

text \<open>
  The routers as a whole: a call names a procedure and carries its input; a sequence of
  calls, each with its own context and environment, runs from left to right.
\<close>

datatype Call =
    AddNote jsstring
  | UpdateNote "jsstring \<times> jsstring"
  | FindAllNotes
  | DeleteNote jsstring
  | SetEvent "EventType \<times> bool"
  | GetEvents
  | SetWebhookURL jsstring
  | FindWebhookInto

fun call :: "NoteData Env \<Rightarrow> TRPCContext \<Rightarrow> Call \<Rightarrow> NoteData World \<Rightarrow> NoteData World" where
  "call env ctx (AddNote input) w = snd (addNote env ctx input w)"
| "call env ctx (UpdateNote input) w = snd (updateNote env ctx input w)"
| "call env ctx FindAllNotes w = snd (findAllNotes env ctx w)"
| "call env ctx (DeleteNote input) w = snd (deleteNote env ctx input w)"
| "call env ctx (SetEvent input) w = snd (setEvent env ctx input w)"
| "call env ctx GetEvents w = snd (getEvents ctx w)"
| "call env ctx (SetWebhookURL input) w = snd (setWebhookURL env ctx input w)"
| "call env ctx FindWebhookInto w = snd (findWebhookInto ctx w)"

fun calls :: "(NoteData Env \<times> TRPCContext \<times> Call) list \<Rightarrow> NoteData World \<Rightarrow> NoteData World"
  where
  "calls [] w = w"
| "calls ((env, ctx, c) # cs) w = calls cs (call env ctx c w)"

subsection \<open>Example inputs\<close>

text \<open>
  A signed-in user \<^verbatim>\<open>u1\<close>; an environment whose URL constructor accepts one URL and whose
  network answers 500; a store in which \<^verbatim>\<open>u1\<close> has a configuration with NOTE_CREATE enabled
  and NOTE_DELETE disabled, and one note; and a store whose configured URL does not parse.
\<close>

definition example_env :: "NoteData Env" where
  "example_env =
     \<lparr>new_URL = (\<lambda>u. if u = ascii ''https://example.com/hook'' then Some u else None),
      fetch = (\<lambda>r. Response 500 (ascii ''Internal Server Error'')),
      Date_now = 1700000000000, new_Date = 1700000000000, newID = ascii ''n2''\<rparr>"

definition example_session :: Session where
  "example_session = \<lparr>user_id = ascii ''u1''\<rparr>"

definition example_ctx :: TRPCContext where
  "example_ctx = \<lparr>session = Some example_session\<rparr>"

definition empty_world :: "NoteData World" where
  "empty_world =
     \<lparr>db = \<lparr>note_table = [], webhookInfo = [], webhookEvent = []\<rparr>, outbox = [], console = []\<rparr>"

definition example_world :: "NoteData World" where
  "example_world =
     \<lparr>db = \<lparr>note_table =
              [\<lparr>ID = ascii ''n1'', title = ascii ''Some title'', data = ascii ''first'',
                updatedOn = 1600000000000\<rparr>],
            webhookInfo =
              [\<lparr>info_ID = ascii ''w1'', userID = ascii ''u1'',
                hostURL = ascii ''https://example.com/hook''\<rparr>],
            webhookEvent =
              [\<lparr>event_ID = ascii ''e1'', webhookInfoID = ascii ''w1'', event = NOTE_DELETE,
                enabled = False\<rparr>,
               \<lparr>event_ID = ascii ''e2'', webhookInfoID = ascii ''w1'', event = NOTE_CREATE,
                enabled = True\<rparr>]\<rparr>,
      outbox = [], console = []\<rparr>"

definition unparsable_world :: "NoteData World" where
  "unparsable_world =
     \<lparr>db = \<lparr>note_table = [],
            webhookInfo =
              [\<lparr>info_ID = ascii ''w1'', userID = ascii ''u1'', hostURL = ascii ''example.com''\<rparr>],
            webhookEvent =
              [\<lparr>event_ID = ascii ''e2'', webhookInfoID = ascii ''w1'', event = NOTE_CREATE,
                enabled = True\<rparr>]\<rparr>,
      outbox = [], console = []\<rparr>"

section \<open>Properties\<close>

subsection \<open>The webhook call and the notifier\<close>

lemma updateWebhook_db: "db (snd (updateWebhook env u type dat w)) = db w"
  by (simp add: updateWebhook_def Let_def split: option.splits FetchResult.splits)

lemma updateWebhook_invalid:
  "new_URL env u = None \<Longrightarrow> updateWebhook env u type dat w = (Inl Invalid_URL, w)"
  by (simp add: updateWebhook_def)

lemma updateWebhook_returns:
  "new_URL env u = Some h \<Longrightarrow> fst (updateWebhook env u type dat w) = Inr ()"
  by (simp add: updateWebhook_def Let_def split: FetchResult.splits)

lemma updateHost_loop_none:
  "\<not> (\<exists>e \<in> set es. event e = type \<and> enabled e) \<Longrightarrow>
   updateHost_loop env info type dat es w = (Inr (), w)"
  by (induction es) auto

lemma updateHost_loop_first:
  "\<exists>e \<in> set es. event e = type \<and> enabled e \<Longrightarrow>
   updateHost_loop env info type dat es w = updateWebhook env (hostURL info) type dat w"
  by (induction es) auto

lemma updateHost_enabled_config:
  "session ctx = Some s \<Longrightarrow>
   updateHost env ctx type dat w =
     (case enabled_config (db w) (user_id s) type of
        None \<Rightarrow> (Inr (), w)
      | Some info \<Rightarrow> updateWebhook env (hostURL info) type dat w)"
  by (simp add: updateHost_def enabled_config_def updateHost_loop_none updateHost_loop_first
           split: option.splits)

lemma updateHost_db: "db (snd (updateHost env ctx type dat w)) = db w"
proof (cases "session ctx")
  case None
  then show ?thesis by (simp add: updateHost_def)
next
  case (Some s)
  then show ?thesis
    by (simp add: updateHost_enabled_config updateWebhook_db split: option.splits)
qed

lemma enabled_config_in_table:
  "enabled_config s uid type = Some info \<Longrightarrow> info \<in> set (webhookInfo s) \<and> userID info = uid"
  by (auto simp: enabled_config_def webhookInfo_find_def find_Some_iff
           split: option.splits if_splits)

lemma updateHost_returns:
  assumes "URLs_valid env (db w)"
  shows "fst (updateHost env ctx type dat w) = Inr ()"
proof (cases "session ctx")
  case None
  then show ?thesis by (simp add: updateHost_def)
next
  case (Some s)
  show ?thesis
  proof (cases "enabled_config (db w) (user_id s) type")
    case None
    with Some show ?thesis by (simp add: updateHost_enabled_config)
  next
    case (Some info)
    then have "info \<in> set (webhookInfo (db w))"
      by (simp add: enabled_config_in_table)
    with assms obtain h where "new_URL env (hostURL info) = Some h"
      by (auto simp: URLs_valid_def)
    with Some \<open>session ctx = Some s\<close> show ?thesis
      by (simp add: updateHost_enabled_config updateWebhook_returns)
  qed
qed

subsection \<open>The note procedures, step by step\<close>

lemma bind_returns:
  "fst p = Inr u \<Longrightarrow>
   (case p of (Inl e, w2) \<Rightarrow> (Inl e, w2) | (Inr x, w2) \<Rightarrow> (Inr (f x), w2)) = (Inr (f u), snd p)"
  by (cases p) auto

lemma bind_world:
  "snd (case p of (Inl e, w2) \<Rightarrow> (Inl e, w2) | (Inr x, w2) \<Rightarrow> (Inr (f x), w2)) = snd p"
  by (cases p) (auto split: sum.splits)

lemma webhookEvents_of_note_table [simp]:
  "webhookEvents_of (s\<lparr>note_table := ns\<rparr>) info = webhookEvents_of s info"
  by (simp add: webhookEvents_of_def)

lemma enabled_config_note_table [simp]:
  "enabled_config (s\<lparr>note_table := ns\<rparr>) uid type = enabled_config s uid type"
  by (simp add: enabled_config_def webhookInfo_find_def split: option.splits)

lemma URLs_valid_note_table [simp]:
  "URLs_valid env (s\<lparr>note_table := ns\<rparr>) = URLs_valid env s"
  by (simp add: URLs_valid_def)

lemma addNote_invalid:
  "session ctx = Some s \<Longrightarrow> trim input = [] \<Longrightarrow>
   addNote env ctx input w = (Inl (InputError (too_small 1)), w)"
  by (simp add: addNote_def protectedProcedure_def z_string_trim_min_def)

lemma addNote_world:
  "session ctx = Some s \<Longrightarrow> trim input \<noteq> [] \<Longrightarrow>
   snd (addNote env ctx input w) =
     snd (updateHost env ctx NOTE_CREATE
            (One \<lparr>ID = newID env, title = ascii ''Some title'', data = trim input,
                   updatedOn = new_Date env\<rparr>)
            (w\<lparr>db := (db w)\<lparr>note_table := note_table (db w) @
                 [\<lparr>ID = newID env, title = ascii ''Some title'', data = trim input,
                   updatedOn = new_Date env\<rparr>]\<rparr>\<rparr>))"
  by (simp add: addNote_def protectedProcedure_def z_string_trim_min_def note_create_def
        Let_def bind_world less_Suc_eq_0_disj)

lemma addNote_returns:
  "session ctx = Some s \<Longrightarrow> trim input \<noteq> [] \<Longrightarrow> URLs_valid env (db w) \<Longrightarrow>
   fst (addNote env ctx input w) =
     Inr \<lparr>ID = newID env, title = ascii ''Some title'', data = trim input,
          updatedOn = new_Date env\<rparr>"
  by (simp add: addNote_def protectedProcedure_def z_string_trim_min_def note_create_def
        Let_def updateHost_returns bind_returns [where f = "\<lambda>_. x" for x])

lemma updateNote_invalid:
  "session ctx = Some s \<Longrightarrow> length (trim (snd input)) < 2 \<Longrightarrow>
   updateNote env ctx input w = (Inl (InputError (too_small 2)), w)"
  by (simp add: updateNote_def protectedProcedure_def z_string_trim_min_def z_string_trim_def)

lemma updateNote_missing:
  "session ctx = Some s \<Longrightarrow> 2 \<le> length (trim (snd input)) \<Longrightarrow>
   note_update (trim (fst input)) (trim (snd input)) (db w) = Inl e \<Longrightarrow>
   updateNote env ctx input w = (Inl e, w)"
  by (simp add: updateNote_def protectedProcedure_def z_string_trim_min_def z_string_trim_def)

lemma updateNote_world:
  "session ctx = Some s \<Longrightarrow> 2 \<le> length (trim (snd input)) \<Longrightarrow>
   note_update (trim (fst input)) (trim (snd input)) (db w) = Inr (n, s1) \<Longrightarrow>
   snd (updateNote env ctx input w) = snd (updateHost env ctx NOTE_UPDATE (One n) (w\<lparr>db := s1\<rparr>))"
  by (simp add: updateNote_def protectedProcedure_def z_string_trim_min_def z_string_trim_def
        bind_world)

lemma updateNote_returns:
  "session ctx = Some s \<Longrightarrow> 2 \<le> length (trim (snd input)) \<Longrightarrow>
   note_update (trim (fst input)) (trim (snd input)) (db w) = Inr (n, s1) \<Longrightarrow>
   URLs_valid env s1 \<Longrightarrow>
   fst (updateNote env ctx input w) = Inr True"
  by (simp add: updateNote_def protectedProcedure_def z_string_trim_min_def z_string_trim_def
        truthy_def updateHost_returns bind_returns [where f = "\<lambda>_. x" for x])

lemma findAllNotes_world:
  "session ctx = Some s \<Longrightarrow>
   snd (findAllNotes env ctx w) =
     snd (updateHost env ctx NOTE_READ (Many (note_table (db w))) w)"
  by (simp add: findAllNotes_def protectedProcedure_def note_findMany_def Let_def bind_world)

lemma findAllNotes_returns:
  "session ctx = Some s \<Longrightarrow> URLs_valid env (db w) \<Longrightarrow>
   fst (findAllNotes env ctx w) = Inr (note_table (db w))"
  by (simp add: findAllNotes_def protectedProcedure_def note_findMany_def Let_def
        updateHost_returns bind_returns [where f = "\<lambda>_. x" for x])

lemma deleteNote_invalid:
  "session ctx = Some s \<Longrightarrow> trim input = [] \<Longrightarrow>
   deleteNote env ctx input w = (Inl (InputError (too_small 1)), w)"
  by (simp add: deleteNote_def protectedProcedure_def z_string_trim_min_def)

lemma deleteNote_missing:
  "session ctx = Some s \<Longrightarrow> trim input \<noteq> [] \<Longrightarrow>
   note_delete (trim input) (db w) = Inl e \<Longrightarrow>
   deleteNote env ctx input w = (Inl e, w)"
  by (simp add: deleteNote_def protectedProcedure_def z_string_trim_min_def less_Suc_eq_0_disj)

lemma deleteNote_world:
  "session ctx = Some s \<Longrightarrow> trim input \<noteq> [] \<Longrightarrow>
   note_delete (trim input) (db w) = Inr (n, s1) \<Longrightarrow>
   snd (deleteNote env ctx input w) = snd (updateHost env ctx NOTE_DELETE (One n) (w\<lparr>db := s1\<rparr>))"
  by (simp add: deleteNote_def protectedProcedure_def z_string_trim_min_def bind_world
        less_Suc_eq_0_disj)

lemma deleteNote_returns:
  "session ctx = Some s \<Longrightarrow> trim input \<noteq> [] \<Longrightarrow>
   note_delete (trim input) (db w) = Inr (n, s1) \<Longrightarrow> URLs_valid env s1 \<Longrightarrow>
   fst (deleteNote env ctx input w) = Inr True"
  by (simp add: deleteNote_def protectedProcedure_def z_string_trim_min_def truthy_def
        updateHost_returns bind_returns [where f = "\<lambda>_. x" for x] less_Suc_eq_0_disj)

lemma find_ID_None: "find (\<lambda>n. ID n = i) xs = None \<longleftrightarrow> i \<notin> ID ` set xs"
  by (auto simp: find_None_iff)

lemma note_update_missing:
  "i \<notin> ID ` set (note_table s) \<Longrightarrow> note_update i d s = Inl RecordNotFound"
  using find_ID_None [of i "note_table s"] by (simp add: note_update_def)

lemma note_update_found:
  assumes "i \<in> ID ` set (note_table s)"
  shows "\<exists>n. note_update i d s =
           Inr (n, s\<lparr>note_table :=
                     map (\<lambda>m. if ID m = i then m\<lparr>data := d\<rparr> else m) (note_table s)\<rparr>) \<and>
           ID n = i \<and> data n = d"
proof -
  from assms obtain m where m: "find (\<lambda>n. ID n = i) (note_table s) = Some m"
    using find_ID_None [of i "note_table s"] by auto
  then have "ID m = i" by (auto simp: find_Some_iff)
  with m show ?thesis by (simp add: note_update_def)
qed

lemma note_delete_missing:
  "i \<notin> ID ` set (note_table s) \<Longrightarrow> note_delete i s = Inl RecordNotFound"
  using find_ID_None [of i "note_table s"] by (simp add: note_delete_def)

lemma note_delete_found:
  assumes "i \<in> ID ` set (note_table s)"
  shows "\<exists>n. note_delete i s =
           Inr (n, s\<lparr>note_table := filter (\<lambda>m. ID m \<noteq> i) (note_table s)\<rparr>) \<and>
           ID n = i \<and> n \<in> set (note_table s)"
proof -
  from assms obtain m where m: "find (\<lambda>n. ID n = i) (note_table s) = Some m"
    using find_ID_None [of i "note_table s"] by auto
  then have "ID m = i \<and> m \<in> set (note_table s)"
    by (auto simp: find_Some_iff)
  with m show ?thesis by (simp add: note_delete_def)
qed

subsection \<open>What a notification adds to the world\<close>

lemma updateWebhook_valid:
  "new_URL env u = Some h \<Longrightarrow>
   updateWebhook env u type dat w =
     (Inr (), w\<lparr>outbox := outbox w @ [webhook_request env h type dat],
                console := console w @ failure_log (fetch env (webhook_request env h type dat))\<rparr>)"
  by (simp add: updateWebhook_def webhook_request_def failure_log_def Let_def
           split: FetchResult.splits)

lemma failure_log_length: "length (failure_log res) \<le> 1"
  by (simp add: failure_log_def split: FetchResult.splits)

lemma updateWebhook_outbox_grows:
  "\<exists>rs. outbox (snd (updateWebhook env u type dat w)) = outbox w @ rs \<and> length rs \<le> 1"
  by (cases "new_URL env u") (simp_all add: updateWebhook_invalid updateWebhook_valid)

lemma updateHost_outbox_grows:
  "\<exists>rs. outbox (snd (updateHost env ctx type dat w)) = outbox w @ rs \<and> length rs \<le> 1"
proof (cases "session ctx")
  case None
  then show ?thesis by (simp add: updateHost_def)
next
  case (Some s)
  show ?thesis
  proof (cases "enabled_config (db w) (user_id s) type")
    case None
    with Some show ?thesis by (simp add: updateHost_enabled_config)
  next
    case (Some info)
    with \<open>session ctx = Some s\<close> show ?thesis
      using updateWebhook_outbox_grows [of env "hostURL info" type dat w]
      by (simp add: updateHost_enabled_config)
  qed
qed

lemma updateHost_count:
  assumes "session ctx = Some s" and "URLs_valid env (db w)"
  shows "\<exists>rs. outbox (snd (updateHost env ctx type dat w)) = outbox w @ rs \<and>
              length rs = (if enabled_config (db w) (user_id s) type = None then 0 else 1)"
proof (cases "enabled_config (db w) (user_id s) type")
  case None
  with assms show ?thesis by (simp add: updateHost_enabled_config)
next
  case (Some info)
  then have "info \<in> set (webhookInfo (db w))"
    by (simp add: enabled_config_in_table)
  with assms obtain h where "new_URL env (hostURL info) = Some h"
    by (auto simp: URLs_valid_def)
  with Some assms show ?thesis
    by (simp add: updateHost_enabled_config updateWebhook_valid)
qed

lemma updateHost_idle:
  "session ctx = Some s \<Longrightarrow> enabled_config (db w) (user_id s) type = None \<Longrightarrow>
   updateHost env ctx type dat w = (Inr (), w)"
  by (simp add: updateHost_enabled_config)

lemma updateHost_requests:
  assumes "session ctx = Some s"
  shows "\<exists>rs. outbox (snd (updateHost env ctx type dat w)) = outbox w @ rs \<and>
     (\<forall>r \<in> set rs. \<exists>info. enabled_config (db w) (user_id s) type = Some info \<and>
                       webhook_post env (hostURL info) type dat r)"
proof (cases "enabled_config (db w) (user_id s) type")
  case None
  with assms show ?thesis by (simp add: updateHost_enabled_config)
next
  case (Some info)
  show ?thesis
  proof (cases "new_URL env (hostURL info)")
    case None
    with Some assms show ?thesis
      by (simp add: updateHost_enabled_config updateWebhook_invalid)
  next
    case (Some h)
    with \<open>enabled_config (db w) (user_id s) type = Some info\<close> assms show ?thesis
      by (simp add: updateHost_enabled_config updateWebhook_valid webhook_post_def
            webhook_request_def)
  qed
qed

lemma note_update_tables:
  "note_update i d s = Inr (n, s1) \<Longrightarrow>
   webhookInfo s1 = webhookInfo s \<and> webhookEvent s1 = webhookEvent s"
  by (auto simp: note_update_def split: option.splits)

lemma note_delete_tables:
  "note_delete i s = Inr (n, s1) \<Longrightarrow>
   webhookInfo s1 = webhookInfo s \<and> webhookEvent s1 = webhookEvent s"
  by (auto simp: note_delete_def split: option.splits)

lemma enabled_config_tables:
  "webhookInfo s1 = webhookInfo s \<Longrightarrow> webhookEvent s1 = webhookEvent s \<Longrightarrow>
   enabled_config s1 uid type = enabled_config s uid type"
  by (simp add: enabled_config_def webhookInfo_find_def webhookEvents_of_def
           cong: option.case_cong)

lemma URLs_valid_tables:
  "webhookInfo s1 = webhookInfo s \<Longrightarrow> URLs_valid env s1 = URLs_valid env s"
  by (simp add: URLs_valid_def)

subsection \<open>Each note procedure either fails early or ends in the notifier\<close>

lemma addNote_cases:
  "(\<exists>e. addNote env ctx input w = (Inl e, w)) \<or>
   (session ctx \<noteq> None \<and> trim input \<noteq> [] \<and>
    snd (addNote env ctx input w) =
      snd (updateHost env ctx NOTE_CREATE (One (created_note env input))
             (w\<lparr>db := (db w)\<lparr>note_table := note_table (db w) @ [created_note env input]\<rparr>\<rparr>)))"
proof (cases "session ctx")
  case None
  then show ?thesis by (simp add: addNote_def protectedProcedure_def)
next
  case (Some s)
  then show ?thesis
    by (cases "trim input = []") (simp_all add: addNote_invalid addNote_world created_note_def)
qed

lemma updateNote_cases:
  "(\<exists>e. updateNote env ctx input w = (Inl e, w)) \<or>
   (\<exists>n s1. session ctx \<noteq> None \<and> 2 \<le> length (trim (snd input)) \<and>
      note_update (trim (fst input)) (trim (snd input)) (db w) = Inr (n, s1) \<and>
      snd (updateNote env ctx input w) =
        snd (updateHost env ctx NOTE_UPDATE (One n) (w\<lparr>db := s1\<rparr>)))"
proof (cases "session ctx")
  case None
  then show ?thesis by (simp add: updateNote_def protectedProcedure_def)
next
  case (Some s)
  show ?thesis
  proof (cases "length (trim (snd input)) < 2")
    case True
    with Some show ?thesis by (simp add: updateNote_invalid)
  next
    case False
    then have len: "2 \<le> length (trim (snd input))" by simp
    show ?thesis
    proof (cases "note_update (trim (fst input)) (trim (snd input)) (db w)")
      case (Inl e)
      with Some len show ?thesis by (simp add: updateNote_missing)
    next
      case (Inr p)
      then obtain n s1 where
        "note_update (trim (fst input)) (trim (snd input)) (db w) = Inr (n, s1)"
        by (cases p) simp
      with Some len show ?thesis
        using updateNote_world [of ctx s input w n s1 env] by simp
    qed
  qed
qed

lemma findAllNotes_cases:
  "(\<exists>e. findAllNotes env ctx w = (Inl e, w)) \<or>
   (session ctx \<noteq> None \<and>
    snd (findAllNotes env ctx w) =
      snd (updateHost env ctx NOTE_READ (Many (note_table (db w))) w))"
proof (cases "session ctx")
  case None
  then show ?thesis by (simp add: findAllNotes_def protectedProcedure_def)
next
  case (Some s)
  then show ?thesis by (simp add: findAllNotes_world)
qed

lemma deleteNote_cases:
  "(\<exists>e. deleteNote env ctx input w = (Inl e, w)) \<or>
   (\<exists>n s1. session ctx \<noteq> None \<and> trim input \<noteq> [] \<and>
      note_delete (trim input) (db w) = Inr (n, s1) \<and>
      snd (deleteNote env ctx input w) =
        snd (updateHost env ctx NOTE_DELETE (One n) (w\<lparr>db := s1\<rparr>)))"
proof (cases "session ctx")
  case None
  then show ?thesis by (simp add: deleteNote_def protectedProcedure_def)
next
  case (Some s)
  show ?thesis
  proof (cases "trim input = []")
    case True
    with Some show ?thesis by (simp add: deleteNote_invalid)
  next
    case False
    show ?thesis
    proof (cases "note_delete (trim input) (db w)")
      case (Inl e)
      with Some False show ?thesis by (simp add: deleteNote_missing)
    next
      case (Inr p)
      then obtain n s1 where "note_delete (trim input) (db w) = Inr (n, s1)"
        by (cases p) simp
      with Some False show ?thesis
        using deleteNote_world [of ctx s input w n s1 env] by simp
    qed
  qed
qed

subsection \<open>Evaluation of the examples\<close>

lemmas example_defs =
  example_env_def example_session_def example_ctx_def empty_world_def example_world_def

lemmas eval_defs =
  ascii_def trim_def js_whitespace_def
  protectedProcedure_def z_string_trim_def z_string_trim_min_def z_string_url_def
  note_create_def note_update_def note_delete_def note_findMany_def
  webhookInfo_find_def webhookEvents_of_def webhookInfo_upsert_def webhookEvent_upsert_def
  updateWebhook_def updateHost_def ok_def truthy_def
  addNote_def updateNote_def findAllNotes_def deleteNote_def
  setEvent_def getEvents_def setWebhookURL_def findWebhookInto_def Let_def

subsection \<open>Notification after a storage operation\<close>

lemma updateHost_count_after_storage:
  assumes "session ctx = Some s" and "URLs_valid env (db w)"
    and "webhookInfo s1 = webhookInfo (db w)" and "webhookEvent s1 = webhookEvent (db w)"
  shows "attempts w (snd (updateHost env ctx type dat (w\<lparr>db := s1\<rparr>)))
           (if enabled_config (db w) (user_id s) type = None then 0 else 1)"
  using updateHost_count [of ctx s env "w\<lparr>db := s1\<rparr>" type dat] assms
    enabled_config_tables [of s1 "db w" "user_id s" type] URLs_valid_tables [of s1 "db w" env]
  by (simp add: attempts_def)

lemma updateHost_requests_after_storage:
  assumes "session ctx = Some s"
    and "webhookInfo s1 = webhookInfo (db w)" and "webhookEvent s1 = webhookEvent (db w)"
  shows "\<exists>rs. outbox (snd (updateHost env ctx type dat (w\<lparr>db := s1\<rparr>))) = outbox w @ rs \<and>
     (\<forall>r \<in> set rs. \<exists>info. enabled_config (db w) (user_id s) type = Some info \<and>
                       webhook_post env (hostURL info) type dat r)"
  using updateHost_requests [of ctx s env type dat "w\<lparr>db := s1\<rparr>"] assms
    enabled_config_tables [of s1 "db w" "user_id s" type]
  by simp

lemma no_requests:
  "snd p = w \<Longrightarrow> \<exists>rs. outbox (snd p) = outbox w @ rs \<and> (\<forall>r \<in> set rs. P r)"
  by simp

lemma updateHost_outbox_after_storage:
  "\<exists>rs. outbox (snd (updateHost env ctx type dat (w\<lparr>db := s1\<rparr>))) = outbox w @ rs \<and>
        length rs \<le> 1"
  using updateHost_outbox_grows [of env ctx type dat "w\<lparr>db := s1\<rparr>"] by simp

lemma outbox_unchanged:
  "snd p = w \<Longrightarrow> \<exists>rs. outbox (snd p) = outbox w @ rs \<and> length rs \<le> 1"
  by simp

lemma addNote_outbox_grows:
  "\<exists>rs. outbox (snd (addNote env ctx input w)) = outbox w @ rs \<and> length rs \<le> 1"
  using addNote_cases [of env ctx input w]
proof (elim disjE exE conjE)
  fix e
  assume "addNote env ctx input w = (Inl e, w)"
  then have "snd (addNote env ctx input w) = w" by simp
  then show ?thesis by (rule outbox_unchanged)
next
  assume "snd (addNote env ctx input w) =
      snd (updateHost env ctx NOTE_CREATE (One (created_note env input))
             (w\<lparr>db := (db w)\<lparr>note_table := note_table (db w) @ [created_note env input]\<rparr>\<rparr>))"
  then show ?thesis by (simp only: updateHost_outbox_after_storage)
qed

lemma updateNote_outbox_grows:
  "\<exists>rs. outbox (snd (updateNote env ctx input w)) = outbox w @ rs \<and> length rs \<le> 1"
  using updateNote_cases [of env ctx input w]
proof (elim disjE exE conjE)
  fix e
  assume "updateNote env ctx input w = (Inl e, w)"
  then have "snd (updateNote env ctx input w) = w" by simp
  then show ?thesis by (rule outbox_unchanged)
next
  fix n s1
  assume "snd (updateNote env ctx input w) =
      snd (updateHost env ctx NOTE_UPDATE (One n) (w\<lparr>db := s1\<rparr>))"
  then show ?thesis by (simp only: updateHost_outbox_after_storage)
qed

lemma findAllNotes_outbox_grows:
  "\<exists>rs. outbox (snd (findAllNotes env ctx w)) = outbox w @ rs \<and> length rs \<le> 1"
  using findAllNotes_cases [of env ctx w]
proof (elim disjE exE conjE)
  fix e
  assume "findAllNotes env ctx w = (Inl e, w)"
  then have "snd (findAllNotes env ctx w) = w" by simp
  then show ?thesis by (rule outbox_unchanged)
next
  assume "snd (findAllNotes env ctx w) =
      snd (updateHost env ctx NOTE_READ (Many (note_table (db w))) w)"
  then show ?thesis by (simp only: updateHost_outbox_grows)
qed

lemma deleteNote_outbox_grows:
  "\<exists>rs. outbox (snd (deleteNote env ctx input w)) = outbox w @ rs \<and> length rs \<le> 1"
  using deleteNote_cases [of env ctx input w]
proof (elim disjE exE conjE)
  fix e
  assume "deleteNote env ctx input w = (Inl e, w)"
  then have "snd (deleteNote env ctx input w) = w" by simp
  then show ?thesis by (rule outbox_unchanged)
next
  fix n s1
  assume "snd (deleteNote env ctx input w) =
      snd (updateHost env ctx NOTE_DELETE (One n) (w\<lparr>db := s1\<rparr>))"
  then show ?thesis by (simp only: updateHost_outbox_after_storage)
qed

subsection \<open>The store invariant\<close>

lemma find_userID_None:
  "find (\<lambda>i. userID i = uid) xs = None \<longleftrightarrow> uid \<notin> userID ` set xs"
  by (auto simp: find_None_iff)

lemma find_key_None:
  "find (\<lambda>e. webhookInfoID e = iid \<and> event e = ev) xs = None \<longleftrightarrow>
   (iid, ev) \<notin> (\<lambda>e. (webhookInfoID e, event e)) ` set xs"
  by (auto simp: find_None_iff)

lemma map_userID_update:
  "map userID (map (\<lambda>j. if userID j = uid then j\<lparr>hostURL := u\<rparr> else j) xs) = map userID xs"
  by (induction xs) auto

lemma map_info_ID_update:
  "map info_ID (map (\<lambda>j. if userID j = uid then j\<lparr>hostURL := u\<rparr> else j) xs) = map info_ID xs"
  by (induction xs) auto

lemma map_key_update:
  "map (\<lambda>e. (webhookInfoID e, event e))
     (map (\<lambda>r. if webhookInfoID r = iid \<and> event r = ev then r\<lparr>enabled := en\<rparr> else r) xs) =
   map (\<lambda>e. (webhookInfoID e, event e)) xs"
  by (induction xs) auto

lemma webhookInfo_upsert_events:
  "webhookEvent (snd (webhookInfo_upsert env uid u s)) = webhookEvent s"
  by (simp add: webhookInfo_upsert_def Let_def split: option.splits)

lemma webhookInfo_upsert_table:
  "webhookInfo (snd (webhookInfo_upsert env uid u s)) =
     (case find (\<lambda>i. userID i = uid) (webhookInfo s) of
        Some i \<Rightarrow> map (\<lambda>j. if userID j = uid then j\<lparr>hostURL := u\<rparr> else j) (webhookInfo s)
      | None \<Rightarrow> webhookInfo s @ [\<lparr>info_ID = newID env, userID = uid, hostURL = u\<rparr>])"
  by (simp add: webhookInfo_upsert_def Let_def split: option.splits)

lemma webhookEvent_upsert_infos:
  "webhookInfo (snd (webhookEvent_upsert env iid ev en s)) = webhookInfo s"
  by (simp add: webhookEvent_upsert_def Let_def split: option.splits)

lemma webhookEvent_upsert_table:
  "webhookEvent (snd (webhookEvent_upsert env iid ev en s)) =
     (case find (\<lambda>e. webhookInfoID e = iid \<and> event e = ev) (webhookEvent s) of
        Some e \<Rightarrow>
          map (\<lambda>r. if webhookInfoID r = iid \<and> event r = ev then r\<lparr>enabled := en\<rparr> else r)
            (webhookEvent s)
      | None \<Rightarrow>
          webhookEvent s @
            [\<lparr>event_ID = newID env, webhookInfoID = iid, event = ev, enabled = en\<rparr>])"
  by (simp add: webhookEvent_upsert_def Let_def split: option.splits)

lemma webhookInfo_upsert_info_IDs:
  "info_ID ` set (webhookInfo s) \<subseteq>
   info_ID ` set (webhookInfo (snd (webhookInfo_upsert env uid u s)))"
proof (cases "find (\<lambda>i. userID i = uid) (webhookInfo s)")
  case None
  then show ?thesis by (auto simp: webhookInfo_upsert_table)
next
  case (Some i)
  have "info_ID ` set (map (\<lambda>j. if userID j = uid then j\<lparr>hostURL := u\<rparr> else j)
          (webhookInfo s)) = info_ID ` set (webhookInfo s)"
    unfolding set_map [symmetric] map_info_ID_update ..
  with Some show ?thesis by (simp only: webhookInfo_upsert_table option.case)
qed

lemma webhookInfo_upsert_distinct:
  assumes "distinct (map userID (webhookInfo s))"
  shows "distinct (map userID (webhookInfo (snd (webhookInfo_upsert env uid u s))))"
proof (cases "find (\<lambda>i. userID i = uid) (webhookInfo s)")
  case None
  then have "uid \<notin> userID ` set (webhookInfo s)"
    by (simp add: find_userID_None)
  with None assms show ?thesis
    by (simp add: webhookInfo_upsert_table)
next
  case (Some i)
  with assms show ?thesis
    by (simp only: webhookInfo_upsert_table option.case map_userID_update)
qed

lemma webhookInfo_upsert_invariant:
  assumes "store_invariant s"
  shows "store_invariant (snd (webhookInfo_upsert env uid u s))"
  using assms webhookInfo_upsert_distinct [of s env uid u]
    webhookInfo_upsert_info_IDs [of s env uid u]
  by (auto simp: store_invariant_def webhookInfo_upsert_events)

lemma webhookEvent_upsert_invariant:
  assumes "store_invariant s" and "iid \<in> info_ID ` set (webhookInfo s)"
  shows "store_invariant (snd (webhookEvent_upsert env iid ev en s))"
proof (cases "find (\<lambda>e. webhookInfoID e = iid \<and> event e = ev) (webhookEvent s)")
  case None
  then have "(iid, ev) \<notin> (\<lambda>e. (webhookInfoID e, event e)) ` set (webhookEvent s)"
    by (simp add: find_key_None)
  with None assms show ?thesis
    by (simp add: webhookEvent_upsert_table webhookEvent_upsert_infos store_invariant_def)
next
  case (Some e)
  let ?upd = "\<lambda>r. if webhookInfoID r = iid \<and> event r = ev then r\<lparr>enabled := en\<rparr> else r"
  have t: "webhookEvent (snd (webhookEvent_upsert env iid ev en s)) = map ?upd (webhookEvent s)"
    using Some by (simp only: webhookEvent_upsert_table option.case)
  have d: "distinct (map (\<lambda>e. (webhookInfoID e, event e)) (map ?upd (webhookEvent s)))"
    using assms(1) by (simp only: map_key_update store_invariant_def)
  have r: "\<forall>r \<in> set (map ?upd (webhookEvent s)).
          webhookInfoID r \<in> info_ID ` set (webhookInfo s)"
    using assms(1) by (auto simp: store_invariant_def)
  from d r assms(1) show ?thesis
    unfolding store_invariant_def t webhookEvent_upsert_infos by blast
qed

lemma webhookInfo_find_in_table:
  "webhookInfo_find uid s = Some info \<Longrightarrow> info \<in> set (webhookInfo s) \<and> userID info = uid"
  by (auto simp: webhookInfo_find_def find_Some_iff)

lemma setWebhookURL_db:
  "db (snd (setWebhookURL env ctx u w)) = db w \<or>
   (\<exists>s. session ctx = Some s \<and> new_URL env u \<noteq> None \<and>
      db (snd (setWebhookURL env ctx u w)) = snd (webhookInfo_upsert env (user_id s) u (db w)))"
  by (simp add: setWebhookURL_def protectedProcedure_def z_string_url_def Let_def
        case_prod_unfold split: option.splits)

lemma setWebhookURL_invariant:
  assumes "store_invariant (db w)"
  shows "store_invariant (db (snd (setWebhookURL env ctx u w)))"
  using setWebhookURL_db [of env ctx u w] assms
  by (auto simp: webhookInfo_upsert_invariant)

lemma setEvent_db:
  "db (snd (setEvent env ctx input w)) = db w \<or>
   (\<exists>s info. session ctx = Some s \<and> webhookInfo_find (user_id s) (db w) = Some info \<and>
      db (snd (setEvent env ctx input w)) =
        snd (webhookEvent_upsert env (info_ID info) (fst input) (snd input) (db w)))"
  by (simp add: setEvent_def protectedProcedure_def Let_def case_prod_unfold
        split: option.splits)

lemma setEvent_invariant:
  assumes "store_invariant (db w)"
  shows "store_invariant (db (snd (setEvent env ctx input w)))"
  using setEvent_db [of env ctx input w]
proof (elim disjE exE conjE)
  assume "db (snd (setEvent env ctx input w)) = db w"
  with assms show ?thesis by simp
next
  fix s info
  assume f: "webhookInfo_find (user_id s) (db w) = Some info"
    and e: "db (snd (setEvent env ctx input w)) =
        snd (webhookEvent_upsert env (info_ID info) (fst input) (snd input) (db w))"
  from f have "info_ID info \<in> info_ID ` set (webhookInfo (db w))"
    using webhookInfo_find_in_table [of "user_id s" "db w" info] by simp
  with assms show ?thesis
    unfolding e by (rule webhookEvent_upsert_invariant)
qed

lemma store_invariant_tables:
  "webhookInfo s1 = webhookInfo s \<Longrightarrow> webhookEvent s1 = webhookEvent s \<Longrightarrow>
   store_invariant s1 = store_invariant s"
  by (simp add: store_invariant_def)

lemma addNote_tables:
  "webhookInfo (db (snd (addNote env ctx input w))) = webhookInfo (db w) \<and>
   webhookEvent (db (snd (addNote env ctx input w))) = webhookEvent (db w)"
  using addNote_cases [of env ctx input w] by (auto simp: updateHost_db)

lemma updateNote_tables:
  "webhookInfo (db (snd (updateNote env ctx input w))) = webhookInfo (db w) \<and>
   webhookEvent (db (snd (updateNote env ctx input w))) = webhookEvent (db w)"
  using updateNote_cases [of env ctx input w]
  by (auto simp: updateHost_db dest: note_update_tables)

lemma findAllNotes_tables:
  "webhookInfo (db (snd (findAllNotes env ctx w))) = webhookInfo (db w) \<and>
   webhookEvent (db (snd (findAllNotes env ctx w))) = webhookEvent (db w)"
  using findAllNotes_cases [of env ctx w] by (auto simp: updateHost_db)

lemma deleteNote_tables:
  "webhookInfo (db (snd (deleteNote env ctx input w))) = webhookInfo (db w) \<and>
   webhookEvent (db (snd (deleteNote env ctx input w))) = webhookEvent (db w)"
  using deleteNote_cases [of env ctx input w]
  by (auto simp: updateHost_db dest: note_delete_tables)

lemma getEvents_world: "snd (getEvents ctx w) = w"
  by (simp add: getEvents_def protectedProcedure_def Let_def split: option.splits)

lemma findWebhookInto_world: "snd (findWebhookInto ctx w) = w"
  by (simp add: findWebhookInto_def protectedProcedure_def split: option.splits)

lemma call_invariant:
  assumes "store_invariant (db w)"
  shows "store_invariant (db (call env ctx c w))"
proof (cases c)
  case (AddNote input)
  with assms show ?thesis
    using addNote_tables [of env ctx input w]
      store_invariant_tables [of "db (snd (addNote env ctx input w))" "db w"] by simp
next
  case (UpdateNote input)
  with assms show ?thesis
    using updateNote_tables [of env ctx input w]
      store_invariant_tables [of "db (snd (updateNote env ctx input w))" "db w"] by simp
next
  case FindAllNotes
  with assms show ?thesis
    using findAllNotes_tables [of env ctx w]
      store_invariant_tables [of "db (snd (findAllNotes env ctx w))" "db w"] by simp
next
  case (DeleteNote input)
  with assms show ?thesis
    using deleteNote_tables [of env ctx input w]
      store_invariant_tables [of "db (snd (deleteNote env ctx input w))" "db w"] by simp
next
  case (SetEvent input)
  with assms show ?thesis by (simp add: setEvent_invariant)
next
  case GetEvents
  with assms show ?thesis by (simp add: getEvents_world)
next
  case (SetWebhookURL input)
  with assms show ?thesis by (simp add: setWebhookURL_invariant)
next
  case FindWebhookInto
  with assms show ?thesis by (simp add: findWebhookInto_world)
qed

lemma calls_invariant:
  "store_invariant (db w) \<Longrightarrow> store_invariant (db (calls cs w))"
proof (induction cs arbitrary: w)
  case Nil
  then show ?case by simp
next
  case (Cons x cs)
  obtain env ctx c where x: "x = (env, ctx, c)" by (cases x)
  from Cons.prems have "store_invariant (db (call env ctx c w))"
    by (rule call_invariant)
  then have "store_invariant (db (calls cs (call env ctx c w)))"
    by (rule Cons.IH)
  with x show ?case by simp
qed

lemma empty_world_invariant: "store_invariant (db empty_world)"
  by (simp add: store_invariant_def empty_world_def)

text \<open>Every stored URL is one the parser accepts: it was checked when it was stored.\<close>

lemma webhookInfo_upsert_URLs_valid:
  assumes "URLs_valid env s" and "new_URL env u \<noteq> None"
  shows "URLs_valid env (snd (webhookInfo_upsert env' uid u s))"
  using assms
  by (auto simp: URLs_valid_def webhookInfo_upsert_table split: option.splits if_splits)

lemma call_URLs_valid:
  assumes "URLs_valid env (db w)" and "new_URL env' = new_URL env"
  shows "URLs_valid env (db (call env' ctx c w))"
proof (cases c)
  case (AddNote input)
  with assms show ?thesis
    using addNote_tables [of env' ctx input w]
      URLs_valid_tables [of "db (snd (addNote env' ctx input w))" "db w" env] by simp
next
  case (UpdateNote input)
  with assms show ?thesis
    using updateNote_tables [of env' ctx input w]
      URLs_valid_tables [of "db (snd (updateNote env' ctx input w))" "db w" env] by simp
next
  case FindAllNotes
  with assms show ?thesis
    using findAllNotes_tables [of env' ctx w]
      URLs_valid_tables [of "db (snd (findAllNotes env' ctx w))" "db w" env] by simp
next
  case (DeleteNote input)
  with assms show ?thesis
    using deleteNote_tables [of env' ctx input w]
      URLs_valid_tables [of "db (snd (deleteNote env' ctx input w))" "db w" env] by simp
next
  case (SetEvent input)
  with assms show ?thesis
    using setEvent_db [of env' ctx input w]
      URLs_valid_tables [of "db (snd (setEvent env' ctx input w))" "db w" env]
    by (auto simp: webhookEvent_upsert_infos)
next
  case GetEvents
  with assms show ?thesis by (simp add: getEvents_world)
next
  case (SetWebhookURL input)
  with assms show ?thesis
    using setWebhookURL_db [of env' ctx input w]
      webhookInfo_upsert_URLs_valid [of env "db w" input env']
    by auto
next
  case FindWebhookInto
  with assms show ?thesis by (simp add: findWebhookInto_world)
qed

lemma calls_URLs_valid:
  "URLs_valid env (db w) \<Longrightarrow> \<forall>x \<in> set cs. new_URL (fst x) = new_URL env \<Longrightarrow>
   URLs_valid env (db (calls cs w))"
proof (induction cs arbitrary: w)
  case Nil
  then show ?case by simp
next
  case (Cons x cs)
  obtain env' ctx c where x: "x = (env', ctx, c)" by (cases x)
  with Cons.prems have "URLs_valid env (db (call env' ctx c w))"
    by (simp add: call_URLs_valid)
  with Cons.prems have "URLs_valid env (db (calls cs (call env' ctx c w)))"
    by (simp add: Cons.IH)
  with x show ?case by simp
qed

lemma empty_world_URLs_valid: "URLs_valid env (db empty_world)"
  by (simp add: URLs_valid_def empty_world_def)

lemma reachable_URLs_valid:
  "\<forall>x \<in> set cs. new_URL (fst x) = new_URL env \<Longrightarrow>
   URLs_valid env (db (calls cs empty_world))"
  using empty_world_URLs_valid by (rule calls_URLs_valid)

subsection \<open>Repeated upserts\<close>

lemma filter_unique_key:
  "distinct (map f xs) \<Longrightarrow> x \<in> set xs \<Longrightarrow> filter (\<lambda>y. f y = f x) xs = [x]"
proof (induction xs)
  case Nil
  then show ?case by simp
next
  case (Cons a xs)
  show ?case
  proof (cases "a = x")
    case True
    with Cons.prems have "f x \<notin> f ` set xs" by simp
    then have "\<forall>y \<in> set xs. f y \<noteq> f x" by (metis imageI)
    then have "filter (\<lambda>y. f y = f x) xs = []" by (simp add: filter_empty_conv)
    with True show ?thesis by simp
  next
    case False
    with Cons.prems have "x \<in> set xs" and "f a \<noteq> f x" and "distinct (map f xs)"
      by auto
    with Cons.IH show ?thesis by simp
  qed
qed

lemma webhookInfo_upsert_find:
  "\<exists>c. find (\<lambda>i. userID i = uid) (webhookInfo (snd (webhookInfo_upsert env uid u s))) = Some c"
proof -
  have "uid \<in> userID ` set (webhookInfo (snd (webhookInfo_upsert env uid u s)))"
  proof (cases "find (\<lambda>i. userID i = uid) (webhookInfo s)")
    case None
    then show ?thesis by (simp add: webhookInfo_upsert_table)
  next
    case (Some i)
    then have "uid \<in> set (map userID (webhookInfo s))"
      using find_userID_None [of uid "webhookInfo s"] by auto
    then have "uid \<in> set (map userID
        (map (\<lambda>j. if userID j = uid then j\<lparr>hostURL := u\<rparr> else j) (webhookInfo s)))"
      by (simp only: map_userID_update)
    with Some show ?thesis by (simp only: webhookInfo_upsert_table option.case set_map)
  qed
  then show ?thesis
    using find_userID_None [of uid "webhookInfo (snd (webhookInfo_upsert env uid u s))"]
    by auto
qed

lemma hostURL_after_update:
  "\<forall>j \<in> set (map (\<lambda>j. if userID j = uid then j\<lparr>hostURL := u\<rparr> else j) xs).
     userID j = uid \<longrightarrow> hostURL j = u"
proof (intro ballI impI)
  fix j
  assume "j \<in> set (map (\<lambda>j. if userID j = uid then j\<lparr>hostURL := u\<rparr> else j) xs)"
    and j: "userID j = uid"
  then obtain k where k: "j = (if userID k = uid then k\<lparr>hostURL := u\<rparr> else k)"
    unfolding set_map by blast
  show "hostURL j = u"
  proof (cases "userID k = uid")
    case True
    with k show ?thesis by simp
  next
    case False
    with k j show ?thesis by simp
  qed
qed

lemma webhookInfo_upsert_hostURL:
  "\<forall>j \<in> set (webhookInfo (snd (webhookInfo_upsert env uid u s))).
     userID j = uid \<longrightarrow> hostURL j = u"
proof (cases "find (\<lambda>i. userID i = uid) (webhookInfo s)")
  case None
  then have n: "\<forall>j \<in> set (webhookInfo s). userID j \<noteq> uid"
    by (simp add: find_None_iff)
  have t: "webhookInfo (snd (webhookInfo_upsert env uid u s)) =
      webhookInfo s @ [\<lparr>info_ID = newID env, userID = uid, hostURL = u\<rparr>]"
    using None by (simp only: webhookInfo_upsert_table option.case)
  show ?thesis
    unfolding t using n by simp
next
  case (Some i)
  have t: "webhookInfo (snd (webhookInfo_upsert env uid u s)) =
      map (\<lambda>j. if userID j = uid then j\<lparr>hostURL := u\<rparr> else j) (webhookInfo s)"
    using Some by (simp only: webhookInfo_upsert_table option.case)
  show ?thesis
    unfolding t by (rule hostURL_after_update)
qed

lemma webhookInfo_upsert_again:
  assumes "\<forall>j \<in> set (webhookInfo s). userID j = uid \<longrightarrow> hostURL j = u"
    and "find (\<lambda>i. userID i = uid) (webhookInfo s) = Some c"
  shows "snd (webhookInfo_upsert env uid u s) = s"
proof -
  have "map (\<lambda>j. if userID j = uid then j\<lparr>hostURL := u\<rparr> else j) (webhookInfo s) =
        webhookInfo s"
    by (rule map_idI) (use assms(1) in auto)
  with assms(2) show ?thesis by (simp add: webhookInfo_upsert_def)
qed

lemma setWebhookURL_valid:
  "session ctx = Some s \<Longrightarrow> new_URL env u \<noteq> None \<Longrightarrow>
   db (snd (setWebhookURL env ctx u w)) = snd (webhookInfo_upsert env (user_id s) u (db w))"
  by (auto simp: setWebhookURL_def protectedProcedure_def z_string_url_def Let_def
        case_prod_unfold)

lemma setWebhookURL_idempotent:
  assumes "session ctx = Some s" and "new_URL env u \<noteq> None" and "new_URL env' u \<noteq> None"
    and "store_invariant (db w)"
  shows "db (snd (setWebhookURL env' ctx u (snd (setWebhookURL env ctx u w)))) =
           db (snd (setWebhookURL env ctx u w)) \<and>
         (\<exists>c. filter (\<lambda>i. userID i = user_id s)
                 (webhookInfo (db (snd (setWebhookURL env ctx u w)))) = [c] \<and>
              hostURL c = u)"
proof -
  let ?s1 = "snd (webhookInfo_upsert env (user_id s) u (db w))"
  have d1: "db (snd (setWebhookURL env ctx u w)) = ?s1"
    using assms(1,2) by (rule setWebhookURL_valid)
  obtain c where c: "find (\<lambda>i. userID i = user_id s) (webhookInfo ?s1) = Some c"
    using webhookInfo_upsert_find [of "user_id s" env u "db w"] by blast
  have h: "\<forall>j \<in> set (webhookInfo ?s1). userID j = user_id s \<longrightarrow> hostURL j = u"
    by (rule webhookInfo_upsert_hostURL)
  have "db (snd (setWebhookURL env' ctx u (snd (setWebhookURL env ctx u w)))) =
        snd (webhookInfo_upsert env' (user_id s) u ?s1)"
    using setWebhookURL_valid [OF assms(1,3), of "snd (setWebhookURL env ctx u w)"] d1
    by simp
  also have "\<dots> = ?s1"
    using h c by (rule webhookInfo_upsert_again)
  finally have idem: "db (snd (setWebhookURL env' ctx u (snd (setWebhookURL env ctx u w)))) =
      ?s1" .
  from c have cin: "c \<in> set (webhookInfo ?s1)" and cu: "userID c = user_id s"
    by (auto simp: find_Some_iff)
  have "distinct (map userID (webhookInfo ?s1))"
    using assms(4) webhookInfo_upsert_invariant [of "db w" env "user_id s" u]
    by (simp add: store_invariant_def)
  then have "filter (\<lambda>i. userID i = userID c) (webhookInfo ?s1) = [c]"
    using cin by (rule filter_unique_key)
  then have f1: "filter (\<lambda>i. userID i = user_id s) (webhookInfo ?s1) = [c]"
    by (simp only: cu)
  have f2: "hostURL c = u"
    using h cin cu by blast
  show ?thesis
    unfolding d1 using idem f1 f2 by blast
qed

lemma enabled_after_update:
  assumes "distinct (map (\<lambda>e. (webhookInfoID e, event e)) xs)"
    and "e \<in> set xs" and "webhookInfoID e = iid" and "event e = ev"
  shows "filter (\<lambda>r. webhookInfoID r = iid \<and> event r = ev)
           (map (\<lambda>r. if webhookInfoID r = iid \<and> event r = ev then r\<lparr>enabled := en\<rparr> else r) xs) =
         [e\<lparr>enabled := en\<rparr>]"
proof -
  let ?P = "\<lambda>r. webhookInfoID r = iid \<and> event r = ev"
  let ?upd = "\<lambda>r. if webhookInfoID r = iid \<and> event r = ev then r\<lparr>enabled := en\<rparr> else r"
  have "filter (\<lambda>y. (webhookInfoID y, event y) = (webhookInfoID e, event e)) xs = [e]"
    using assms(1,2) by (rule filter_unique_key)
  with assms(3,4) have one: "filter ?P xs = [e]" by simp
  have c: "?P \<circ> ?upd = ?P" by (auto simp: fun_eq_iff)
  have "filter ?P (map ?upd xs) = map ?upd (filter ?P xs)"
    unfolding filter_map c ..
  also have "\<dots> = [?upd e]" by (simp only: one list.map)
  also have "\<dots> = [e\<lparr>enabled := en\<rparr>]" using assms(3,4) by simp
  finally show ?thesis .
qed

lemma webhookEvent_upsert_latest:
  assumes "distinct (map (\<lambda>e. (webhookInfoID e, event e)) (webhookEvent s))"
  shows "map enabled (filter (\<lambda>r. webhookInfoID r = iid \<and> event r = ev)
           (webhookEvent (snd (webhookEvent_upsert env iid ev en s)))) = [en]"
proof (cases "find (\<lambda>e. webhookInfoID e = iid \<and> event e = ev) (webhookEvent s)")
  case None
  then have "filter (\<lambda>r. webhookInfoID r = iid \<and> event r = ev) (webhookEvent s) = []"
    by (simp add: find_None_iff filter_empty_conv)
  moreover have "webhookEvent (snd (webhookEvent_upsert env iid ev en s)) =
      webhookEvent s @ [\<lparr>event_ID = newID env, webhookInfoID = iid, event = ev, enabled = en\<rparr>]"
    using None by (simp only: webhookEvent_upsert_table option.case)
  ultimately show ?thesis by simp
next
  case (Some e)
  then have e: "e \<in> set (webhookEvent s)" "webhookInfoID e = iid" "event e = ev"
    by (auto simp: find_Some_iff)
  have t: "webhookEvent (snd (webhookEvent_upsert env iid ev en s)) =
      map (\<lambda>r. if webhookInfoID r = iid \<and> event r = ev then r\<lparr>enabled := en\<rparr> else r)
        (webhookEvent s)"
    using Some by (simp only: webhookEvent_upsert_table option.case)
  show ?thesis
    unfolding t enabled_after_update [OF assms e] by simp
qed

lemma webhookEvent_upsert_present:
  "find (\<lambda>e. webhookInfoID e = iid \<and> event e = ev)
     (webhookEvent (snd (webhookEvent_upsert env iid ev en s))) \<noteq> None"
proof -
  have "(iid, ev) \<in> set (map (\<lambda>e. (webhookInfoID e, event e))
      (webhookEvent (snd (webhookEvent_upsert env iid ev en s))))"
  proof (cases "find (\<lambda>e. webhookInfoID e = iid \<and> event e = ev) (webhookEvent s)")
    case None
    then have "webhookEvent (snd (webhookEvent_upsert env iid ev en s)) =
        webhookEvent s @
          [\<lparr>event_ID = newID env, webhookInfoID = iid, event = ev, enabled = en\<rparr>]"
      by (simp only: webhookEvent_upsert_table option.case)
    then show ?thesis by simp
  next
    case (Some e)
    then have "(iid, ev) \<in> set (map (\<lambda>e. (webhookInfoID e, event e)) (webhookEvent s))"
      using find_key_None [of iid ev "webhookEvent s"] by simp
    with Some show ?thesis
      by (simp only: webhookEvent_upsert_table option.case map_key_update)
  qed
  then show ?thesis
    using find_key_None [of iid ev "webhookEvent (snd (webhookEvent_upsert env iid ev en s))"]
    by simp
qed

lemma webhookEvent_upsert_in_place:
  "find (\<lambda>e. webhookInfoID e = iid \<and> event e = ev) (webhookEvent s) \<noteq> None \<Longrightarrow>
   length (webhookEvent (snd (webhookEvent_upsert env iid ev en s))) = length (webhookEvent s)"
  by (cases "find (\<lambda>e. webhookInfoID e = iid \<and> event e = ev) (webhookEvent s)")
     (simp_all add: webhookEvent_upsert_table)

lemma setEvent_valid:
  "session ctx = Some s \<Longrightarrow> webhookInfo_find (user_id s) (db w) = Some info \<Longrightarrow>
   db (snd (setEvent env ctx (ev, en) w)) =
     snd (webhookEvent_upsert env (info_ID info) ev en (db w))"
  by (simp add: setEvent_def protectedProcedure_def Let_def case_prod_unfold)

lemma getEvents_valid:
  "session ctx = Some s \<Longrightarrow> webhookInfo_find (user_id s) (db w) = Some info \<Longrightarrow>
   fst (getEvents ctx w) = Inr (webhookEvents_of (db w) info)"
  by (simp add: getEvents_def protectedProcedure_def Let_def)

lemma setEvent_latest:
  assumes "store_invariant (db w)" and "session ctx = Some s"
    and "webhookInfo_find (user_id s) (db w) = Some info"
  shows "\<exists>es. fst (getEvents ctx (snd (setEvent env ctx (ev, en) w))) = Inr es \<and>
              map enabled (filter (\<lambda>e. event e = ev) es) = [en]"
proof -
  let ?w1 = "snd (setEvent env ctx (ev, en) w)"
  have d: "db ?w1 = snd (webhookEvent_upsert env (info_ID info) ev en (db w))"
    using assms(2,3) by (rule setEvent_valid)
  have "webhookInfo (db ?w1) = webhookInfo (db w)"
    unfolding d by (rule webhookEvent_upsert_infos)
  then have "webhookInfo_find (user_id s) (db ?w1) = Some info"
    using assms(3) unfolding webhookInfo_find_def by (simp only:)
  with assms(2) have g: "fst (getEvents ctx ?w1) = Inr (webhookEvents_of (db ?w1) info)"
    by (rule getEvents_valid)
  have "distinct (map (\<lambda>e. (webhookInfoID e, event e)) (webhookEvent (db w)))"
    using assms(1) by (simp add: store_invariant_def)
  then have "map enabled (filter (\<lambda>r. webhookInfoID r = info_ID info \<and> event r = ev)
           (webhookEvent (db ?w1))) = [en]"
    unfolding d by (rule webhookEvent_upsert_latest)
  moreover have "filter (\<lambda>e. event e = ev) (webhookEvents_of (db ?w1) info) =
      filter (\<lambda>r. webhookInfoID r = info_ID info \<and> event r = ev) (webhookEvent (db ?w1))"
    unfolding webhookEvents_of_def filter_filter ..
  ultimately have "map enabled (filter (\<lambda>e. event e = ev) (webhookEvents_of (db ?w1) info)) =
      [en]"
    by (simp only:)
  with g show ?thesis by (intro exI conjI)
qed

lemma setEvent_keeps_config:
  "webhookInfo (db (snd (setEvent env ctx input w))) = webhookInfo (db w)"
  using setEvent_db [of env ctx input w] by (auto simp: webhookEvent_upsert_infos)

lemma setEvent_in_place:
  assumes "session ctx = Some s" and "webhookInfo_find (user_id s) (db w) = Some info"
  shows "length (webhookEvent (db (snd (setEvent env' ctx (ev, en')
                   (snd (setEvent env ctx (ev, en) w)))))) =
         length (webhookEvent (db (snd (setEvent env ctx (ev, en) w))))"
proof -
  let ?w1 = "snd (setEvent env ctx (ev, en) w)"
  have d: "db ?w1 = snd (webhookEvent_upsert env (info_ID info) ev en (db w))"
    using assms by (rule setEvent_valid)
  have "webhookInfo_find (user_id s) (db ?w1) = Some info"
    using assms(2) unfolding webhookInfo_find_def setEvent_keeps_config .
  with assms(1) have d2: "db (snd (setEvent env' ctx (ev, en') ?w1)) =
      snd (webhookEvent_upsert env' (info_ID info) ev en' (db ?w1))"
    by (rule setEvent_valid)
  have "find (\<lambda>e. webhookInfoID e = info_ID info \<and> event e = ev) (webhookEvent (db ?w1))
          \<noteq> None"
    unfolding d by (rule webhookEvent_upsert_present)
  then show ?thesis
    unfolding d2 by (rule webhookEvent_upsert_in_place)
qed

subsection \<open>The notifier's lookup and the condition over the tables\<close>

lemma find_userID_unique:
  assumes "distinct (map userID xs)" and "i \<in> set xs"
  shows "find (\<lambda>j. userID j = userID i) xs = Some i"
proof -
  from assms(2) obtain c where c: "find (\<lambda>j. userID j = userID i) xs = Some c"
    using find_userID_None [of "userID i" xs] by auto
  then have "c \<in> set xs" and "userID c = userID i"
    by (auto simp: find_Some_iff)
  moreover from assms(1) have "inj_on userID (set xs)"
    by (simp add: distinct_map)
  ultimately have "c = i"
    using assms(2) by (auto dest: inj_onD)
  with c show ?thesis by simp
qed

lemma enabled_config_None_iff:
  assumes "store_invariant s"
  shows "enabled_config s uid type = None \<longleftrightarrow> \<not> notification_enabled s uid type"
proof
  assume n: "enabled_config s uid type = None"
  show "\<not> notification_enabled s uid type"
  proof
    assume "notification_enabled s uid type"
    then obtain i e where i: "i \<in> set (webhookInfo s)" "userID i = uid"
      and e: "e \<in> set (webhookEvent s)" "webhookInfoID e = info_ID i" "event e = type" "enabled e"
      unfolding notification_enabled_def by blast
    from assms have "distinct (map userID (webhookInfo s))"
      by (simp add: store_invariant_def)
    then have "find (\<lambda>j. userID j = userID i) (webhookInfo s) = Some i"
      using i(1) by (rule find_userID_unique)
    with i(2) have f: "webhookInfo_find uid s = Some i"
      by (simp add: webhookInfo_find_def)
    from e have "e \<in> set (webhookEvents_of s i)"
      by (simp add: webhookEvents_of_def)
    with e(3,4) have "\<exists>e \<in> set (webhookEvents_of s i). event e = type \<and> enabled e"
      by blast
    with f have "enabled_config s uid type = Some i"
      by (simp add: enabled_config_def)
    with n show False by simp
  qed
next
  assume n: "\<not> notification_enabled s uid type"
  show "enabled_config s uid type = None"
  proof (cases "enabled_config s uid type")
    case None
    then show ?thesis .
  next
    case (Some info)
    then have i: "info \<in> set (webhookInfo s)" "userID info = uid"
      by (simp_all add: enabled_config_in_table)
    from Some obtain e where "e \<in> set (webhookEvents_of s info)" "event e = type" "enabled e"
      by (auto simp: enabled_config_def split: option.splits if_splits)
    then have "e \<in> set (webhookEvent s)" "webhookInfoID e = info_ID info"
      "event e = type" "enabled e"
      by (simp_all add: webhookEvents_of_def)
    with i have "notification_enabled s uid type"
      unfolding notification_enabled_def by blast
    with n show ?thesis by simp
  qed
qed

lemma notifier_count:
  assumes "session ctx = Some s" and "URLs_valid env (db w)"
  shows
    "fst (updateHost env ctx type dat w) = Inr () \<and>
     attempts w (snd (updateHost env ctx type dat w))
       (if enabled_config (db w) (user_id s) type = None then 0 else 1) \<and>
     (enabled_config (db w) (user_id s) type = None \<longrightarrow>
        updateHost env ctx type dat w = (Inr (), w)) \<and>
     ((\<exists>e \<in> set es. event e = type \<and> enabled e) \<longrightarrow>
        updateHost_loop env info type dat es w = updateWebhook env (hostURL info) type dat w) \<and>
     (trim input \<noteq> [] \<longrightarrow>
        attempts w (snd (addNote env ctx input w))
          (if enabled_config (db w) (user_id s) NOTE_CREATE = None then 0 else 1)) \<and>
     (2 \<le> length (trim d) \<and> trim i \<in> ID ` set (note_table (db w)) \<longrightarrow>
        attempts w (snd (updateNote env ctx (i, d) w))
          (if enabled_config (db w) (user_id s) NOTE_UPDATE = None then 0 else 1)) \<and>
     attempts w (snd (findAllNotes env ctx w))
       (if enabled_config (db w) (user_id s) NOTE_READ = None then 0 else 1) \<and>
     (trim j \<noteq> [] \<and> trim j \<in> ID ` set (note_table (db w)) \<longrightarrow>
        attempts w (snd (deleteNote env ctx j w))
          (if enabled_config (db w) (user_id s) NOTE_DELETE = None then 0 else 1))"
proof (intro conjI impI)
  show "fst (updateHost env ctx type dat w) = Inr ()"
    using assms(2) by (rule updateHost_returns)
  show "attempts w (snd (updateHost env ctx type dat w))
       (if enabled_config (db w) (user_id s) type = None then 0 else 1)"
    using updateHost_count [OF assms, of type dat] by (simp add: attempts_def)
  show "updateHost env ctx type dat w = (Inr (), w)"
    if "enabled_config (db w) (user_id s) type = None"
    using assms(1) that by (rule updateHost_idle)
  show "updateHost_loop env info type dat es w = updateWebhook env (hostURL info) type dat w"
    if "\<exists>e \<in> set es. event e = type \<and> enabled e"
    using that by (rule updateHost_loop_first)
  show "attempts w (snd (addNote env ctx input w))
          (if enabled_config (db w) (user_id s) NOTE_CREATE = None then 0 else 1)"
    if "trim input \<noteq> []"
    using updateHost_count_after_storage [OF assms,
        of "(db w)\<lparr>note_table := note_table (db w) @ [created_note env input]\<rparr>"
          NOTE_CREATE "One (created_note env input)"]
    by (simp add: addNote_world [OF assms(1) that] created_note_def)
  show "attempts w (snd (updateNote env ctx (i, d) w))
          (if enabled_config (db w) (user_id s) NOTE_UPDATE = None then 0 else 1)"
    if a: "2 \<le> length (trim d) \<and> trim i \<in> ID ` set (note_table (db w))"
  proof -
    from a obtain n s1 where u: "note_update (trim i) (trim d) (db w) = Inr (n, s1)"
      using note_update_found [of "trim i" "db w" "trim d"] by blast
    then have t: "webhookInfo s1 = webhookInfo (db w) \<and> webhookEvent s1 = webhookEvent (db w)"
      by (rule note_update_tables)
    have "snd (updateNote env ctx (i, d) w) =
        snd (updateHost env ctx NOTE_UPDATE (One n) (w\<lparr>db := s1\<rparr>))"
      using assms(1) a u by (simp add: updateNote_world)
    then show ?thesis
      using updateHost_count_after_storage [OF assms, of s1 NOTE_UPDATE "One n"] t by simp
  qed
  show "attempts w (snd (findAllNotes env ctx w))
       (if enabled_config (db w) (user_id s) NOTE_READ = None then 0 else 1)"
    using updateHost_count [OF assms, of NOTE_READ "Many (note_table (db w))"] assms(1)
    by (simp add: attempts_def findAllNotes_world)
  show "attempts w (snd (deleteNote env ctx j w))
          (if enabled_config (db w) (user_id s) NOTE_DELETE = None then 0 else 1)"
    if a: "trim j \<noteq> [] \<and> trim j \<in> ID ` set (note_table (db w))"
  proof -
    from a obtain n s1 where u: "note_delete (trim j) (db w) = Inr (n, s1)"
      using note_delete_found [of "trim j" "db w"] by blast
    then have t: "webhookInfo s1 = webhookInfo (db w) \<and> webhookEvent s1 = webhookEvent (db w)"
      by (rule note_delete_tables)
    have "snd (deleteNote env ctx j w) =
        snd (updateHost env ctx NOTE_DELETE (One n) (w\<lparr>db := s1\<rparr>))"
      using assms(1) a u by (simp add: deleteNote_world)
    then show ?thesis
      using updateHost_count_after_storage [OF assms, of s1 NOTE_DELETE "One n"] t by simp
  qed
qed

section \<open>The claims\<close>

text \<open>
  Claim C1. For a signed-in caller, in a store that satisfies the store invariant and whose
  URLs were accepted when they were set (both hold in every store the procedures reach:
  \<open>calls_invariant\<close>, \<open>calls_URLs_valid\<close>), the notifier \<^verbatim>\<open>updateHost\<close> returns without
  an error and hands exactly one request to \<^verbatim>\<open>fetch\<close> when the \<^verbatim>\<open>webhookInfo\<close> table has a
  row of the caller and the \<^verbatim>\<open>webhookEvent\<close> table has a row that refers to it, is of the
  triggering kind and is enabled; otherwise it hands none. Without such a setting, and in
  particular when the caller has no configuration row, it leaves the world as it was. The
  scan stops at the first enabled setting of the kind: however many there are, the loop is
  one call of \<^verbatim>\<open>updateWebhook\<close>. The same count holds for each of the four note procedures
  whose storage operation succeeds, with the kinds NOTE_CREATE, NOTE_UPDATE, NOTE_READ and
  NOTE_DELETE.
\<close>

theorem C1_one_attempt_iff_enabled:
  assumes "session ctx = Some s" and "URLs_valid env (db w)" and "store_invariant (db w)"
  shows
    "fst (updateHost env ctx type dat w) = Inr () \<and>
     attempts w (snd (updateHost env ctx type dat w))
       (if notification_enabled (db w) (user_id s) type then 1 else 0) \<and>
     (\<not> notification_enabled (db w) (user_id s) type \<longrightarrow>
        updateHost env ctx type dat w = (Inr (), w)) \<and>
     (user_id s \<notin> userID ` set (webhookInfo (db w)) \<longrightarrow>
        updateHost env ctx type dat w = (Inr (), w)) \<and>
     ((\<exists>e \<in> set es. event e = type \<and> enabled e) \<longrightarrow>
        updateHost_loop env info type dat es w = updateWebhook env (hostURL info) type dat w) \<and>
     (trim input \<noteq> [] \<longrightarrow>
        attempts w (snd (addNote env ctx input w))
          (if notification_enabled (db w) (user_id s) NOTE_CREATE then 1 else 0)) \<and>
     (2 \<le> length (trim d) \<and> trim i \<in> ID ` set (note_table (db w)) \<longrightarrow>
        attempts w (snd (updateNote env ctx (i, d) w))
          (if notification_enabled (db w) (user_id s) NOTE_UPDATE then 1 else 0)) \<and>
     attempts w (snd (findAllNotes env ctx w))
       (if notification_enabled (db w) (user_id s) NOTE_READ then 1 else 0) \<and>
     (trim j \<noteq> [] \<and> trim j \<in> ID ` set (note_table (db w)) \<longrightarrow>
        attempts w (snd (deleteNote env ctx j w))
          (if notification_enabled (db w) (user_id s) NOTE_DELETE then 1 else 0))"
proof -
  note c = notifier_count [OF assms(1,2), of type dat es info input d i j]
  have eq: "enabled_config (db w) (user_id s) k = None \<longleftrightarrow>
            \<not> notification_enabled (db w) (user_id s) k" for k
    using assms(3) by (rule enabled_config_None_iff)
  have sw: "(if enabled_config (db w) (user_id s) k = None then 0 else 1) =
            (if notification_enabled (db w) (user_id s) k then 1 else (0::nat))" for k
    by (simp add: eq)
  have none: "\<not> notification_enabled (db w) (user_id s) type"
    if "user_id s \<notin> userID ` set (webhookInfo (db w))"
  proof
    assume "notification_enabled (db w) (user_id s) type"
    then obtain c where "c \<in> set (webhookInfo (db w))" and "userID c = user_id s"
      unfolding notification_enabled_def by blast
    then have "user_id s \<in> userID ` set (webhookInfo (db w))"
      by (metis imageI)
    with that show False by simp
  qed
  show ?thesis
  proof (intro conjI impI)
    show "fst (updateHost env ctx type dat w) = Inr ()"
      using c by blast
    show "attempts w (snd (updateHost env ctx type dat w))
       (if notification_enabled (db w) (user_id s) type then 1 else 0)"
      using c unfolding sw by blast
    show "updateHost env ctx type dat w = (Inr (), w)"
      if "\<not> notification_enabled (db w) (user_id s) type"
      using c that unfolding eq by blast
    show "updateHost env ctx type dat w = (Inr (), w)"
      if "user_id s \<notin> userID ` set (webhookInfo (db w))"
      using c none [OF that] unfolding eq by blast
    show "updateHost_loop env info type dat es w =
        updateWebhook env (hostURL info) type dat w"
      if "\<exists>e \<in> set es. event e = type \<and> enabled e"
      using that by (rule updateHost_loop_first)
    show "attempts w (snd (addNote env ctx input w))
          (if notification_enabled (db w) (user_id s) NOTE_CREATE then 1 else 0)"
      if "trim input \<noteq> []"
      using c that unfolding sw by blast
    show "attempts w (snd (updateNote env ctx (i, d) w))
          (if notification_enabled (db w) (user_id s) NOTE_UPDATE then 1 else 0)"
      if "2 \<le> length (trim d) \<and> trim i \<in> ID ` set (note_table (db w))"
      using c that unfolding sw by blast
    show "attempts w (snd (findAllNotes env ctx w))
       (if notification_enabled (db w) (user_id s) NOTE_READ then 1 else 0)"
      using c unfolding sw by blast
    show "attempts w (snd (deleteNote env ctx j w))
          (if notification_enabled (db w) (user_id s) NOTE_DELETE then 1 else 0)"
      if "trim j \<noteq> [] \<and> trim j \<in> ID ` set (note_table (db w))"
      using c that unfolding sw by blast
  qed
qed

theorem C1_witness:
  "session example_ctx = Some example_session \<and>
   URLs_valid example_env (db example_world) \<and>
   store_invariant (db example_world) \<and>
   notification_enabled (db example_world) (user_id example_session) NOTE_CREATE \<and>
   \<not> notification_enabled (db example_world) (user_id example_session) NOTE_DELETE \<and>
   attempts example_world
     (snd (addNote example_env example_ctx (ascii ''n1'') example_world)) 1 \<and>
   attempts example_world
     (snd (deleteNote example_env example_ctx (ascii ''n1'') example_world)) 0"
proof -
  have h1: "session example_ctx = Some example_session"
    by (simp add: example_ctx_def)
  have h2: "URLs_valid example_env (db example_world)"
    by (simp add: URLs_valid_def example_env_def example_world_def)
  have h3: "store_invariant (db example_world)"
    by (simp add: store_invariant_def example_world_def ascii_def)
  have h4: "notification_enabled (db example_world) (user_id example_session) NOTE_CREATE"
    by (simp add: notification_enabled_def example_world_def example_session_def)
  have h5: "\<not> notification_enabled (db example_world) (user_id example_session) NOTE_DELETE"
    by (simp add: notification_enabled_def example_world_def example_session_def)
  have h6: "trim (ascii ''n1'') = ascii ''n1''"
    by (simp add: ascii_def trim_def js_whitespace_def)
  have h7: "ascii ''n1'' \<noteq> [] \<and> ascii ''n1'' \<in> ID ` set (note_table (db example_world))"
    by (simp add: ascii_def example_world_def)
  show ?thesis
    using h1 h2 h3 h4 h5 h6 h7
      C1_one_attempt_iff_enabled [OF h1 h2 h3, of NOTE_CREATE "Many []" "[]"
        "\<lparr>info_ID = [], userID = [], hostURL = []\<rparr>" "ascii ''n1''" "[]" "[]" "ascii ''n1''"]
    by simp
qed

text \<open>
  Claim C2. Every request handed to \<^verbatim>\<open>fetch\<close> is a POST to the serialisation of the URL
  parsed from the configured \<^verbatim>\<open>hostURL\<close>, with the single header
  \<^verbatim>\<open>Content-Type: application/json\<close>, and its body is the object with exactly the three
  keys \<^verbatim>\<open>type\<close> (the event kind), \<^verbatim>\<open>timestamp\<close> (\<^verbatim>\<open>Date.now()\<close> of the call, integer
  milliseconds) and \<^verbatim>\<open>data\<close> (the value passed by the triggering procedure: the created,
  updated or deleted note, or the list of all notes). This holds for \<^verbatim>\<open>updateWebhook\<close>, for
  the notifier, and for every request each of the four note procedures adds to the outbox.
\<close>

theorem C2_post_shape:
  assumes "session ctx = Some s"
  shows
    "(new_URL env u = Some h \<longrightarrow>
        outbox (snd (updateWebhook env u type dat w)) =
          outbox w @
            [\<lparr>url = h, http_method = ''POST'',
              headers = [(''Content-Type'', ''application/json'')],
              body = JSON_object
                [(''type'', JSON_string (EventType_name type)),
                 (''timestamp'', JSON_number (Date_now env)),
                 (''data'', JSON_value dat)]\<rparr>]) \<and>
     (\<exists>rs. outbox (snd (updateHost env ctx type dat w)) = outbox w @ rs \<and>
        (\<forall>r \<in> set rs. \<exists>info.
           enabled_config (db w) (user_id s) type = Some info \<and>
           webhook_post env (hostURL info) type dat r)) \<and>
     (\<exists>rs. outbox (snd (addNote env ctx input w)) = outbox w @ rs \<and>
        (\<forall>r \<in> set rs. \<exists>info.
           enabled_config (db w) (user_id s) NOTE_CREATE = Some info \<and>
           webhook_post env (hostURL info) NOTE_CREATE (One (created_note env input)) r)) \<and>
     (\<exists>rs. outbox (snd (updateNote env ctx (i, d) w)) = outbox w @ rs \<and>
        (\<forall>r \<in> set rs. \<exists>info n s1.
           enabled_config (db w) (user_id s) NOTE_UPDATE = Some info \<and>
           note_update (trim i) (trim d) (db w) = Inr (n, s1) \<and>
           webhook_post env (hostURL info) NOTE_UPDATE (One n) r)) \<and>
     (\<exists>rs. outbox (snd (findAllNotes env ctx w)) = outbox w @ rs \<and>
        (\<forall>r \<in> set rs. \<exists>info.
           enabled_config (db w) (user_id s) NOTE_READ = Some info \<and>
           webhook_post env (hostURL info) NOTE_READ (Many (note_table (db w))) r)) \<and>
     (\<exists>rs. outbox (snd (deleteNote env ctx j w)) = outbox w @ rs \<and>
        (\<forall>r \<in> set rs. \<exists>info n s1.
           enabled_config (db w) (user_id s) NOTE_DELETE = Some info \<and>
           note_delete (trim j) (db w) = Inr (n, s1) \<and>
           webhook_post env (hostURL info) NOTE_DELETE (One n) r))"
proof (intro conjI impI)
  show "outbox (snd (updateWebhook env u type dat w)) =
          outbox w @
            [\<lparr>url = h, http_method = ''POST'',
              headers = [(''Content-Type'', ''application/json'')],
              body = JSON_object
                [(''type'', JSON_string (EventType_name type)),
                 (''timestamp'', JSON_number (Date_now env)),
                 (''data'', JSON_value dat)]\<rparr>]"
    if "new_URL env u = Some h"
    using that by (simp add: updateWebhook_valid webhook_request_def)
  show "\<exists>rs. outbox (snd (updateHost env ctx type dat w)) = outbox w @ rs \<and>
        (\<forall>r \<in> set rs. \<exists>info.
           enabled_config (db w) (user_id s) type = Some info \<and>
           webhook_post env (hostURL info) type dat r)"
    using assms by (rule updateHost_requests)
  show "\<exists>rs. outbox (snd (addNote env ctx input w)) = outbox w @ rs \<and>
        (\<forall>r \<in> set rs. \<exists>info.
           enabled_config (db w) (user_id s) NOTE_CREATE = Some info \<and>
           webhook_post env (hostURL info) NOTE_CREATE (One (created_note env input)) r)"
  proof (cases "trim input = []")
    case True
    with assms have "snd (addNote env ctx input w) = w"
      by (simp add: addNote_invalid)
    then show ?thesis by (rule no_requests)
  next
    case False
    with assms show ?thesis
      using updateHost_requests_after_storage [OF assms,
        of "(db w)\<lparr>note_table := note_table (db w) @ [created_note env input]\<rparr>" w
          env NOTE_CREATE "One (created_note env input)"]
      by (simp add: addNote_world created_note_def)
  qed
  show "\<exists>rs. outbox (snd (updateNote env ctx (i, d) w)) = outbox w @ rs \<and>
        (\<forall>r \<in> set rs. \<exists>info n s1.
           enabled_config (db w) (user_id s) NOTE_UPDATE = Some info \<and>
           note_update (trim i) (trim d) (db w) = Inr (n, s1) \<and>
           webhook_post env (hostURL info) NOTE_UPDATE (One n) r)"
    using updateNote_cases [of env ctx "(i, d)" w]
  proof (elim disjE exE conjE)
    fix e
    assume "updateNote env ctx (i, d) w = (Inl e, w)"
    then have "snd (updateNote env ctx (i, d) w) = w" by simp
    then show ?thesis by (rule no_requests)
  next
    fix n s1
    assume u: "note_update (trim (fst (i, d))) (trim (snd (i, d))) (db w) = Inr (n, s1)"
      and e: "snd (updateNote env ctx (i, d) w) =
              snd (updateHost env ctx NOTE_UPDATE (One n) (w\<lparr>db := s1\<rparr>))"
    from u have t: "webhookInfo s1 = webhookInfo (db w)" "webhookEvent s1 = webhookEvent (db w)"
      using note_update_tables [of "trim i" "trim d" "db w" n s1] by simp_all
    from updateHost_requests_after_storage [OF assms t, of env NOTE_UPDATE "One n"] u e
    show ?thesis by auto
  qed
  show "\<exists>rs. outbox (snd (findAllNotes env ctx w)) = outbox w @ rs \<and>
        (\<forall>r \<in> set rs. \<exists>info.
           enabled_config (db w) (user_id s) NOTE_READ = Some info \<and>
           webhook_post env (hostURL info) NOTE_READ (Many (note_table (db w))) r)"
    using updateHost_requests [OF assms, of env NOTE_READ "Many (note_table (db w))" w] assms
    by (simp add: findAllNotes_world)
  show "\<exists>rs. outbox (snd (deleteNote env ctx j w)) = outbox w @ rs \<and>
        (\<forall>r \<in> set rs. \<exists>info n s1.
           enabled_config (db w) (user_id s) NOTE_DELETE = Some info \<and>
           note_delete (trim j) (db w) = Inr (n, s1) \<and>
           webhook_post env (hostURL info) NOTE_DELETE (One n) r)"
    using deleteNote_cases [of env ctx j w]
  proof (elim disjE exE conjE)
    fix e
    assume "deleteNote env ctx j w = (Inl e, w)"
    then have "snd (deleteNote env ctx j w) = w" by simp
    then show ?thesis by (rule no_requests)
  next
    fix n s1
    assume u: "note_delete (trim j) (db w) = Inr (n, s1)"
      and e: "snd (deleteNote env ctx j w) =
              snd (updateHost env ctx NOTE_DELETE (One n) (w\<lparr>db := s1\<rparr>))"
    from u have t: "webhookInfo s1 = webhookInfo (db w)" "webhookEvent s1 = webhookEvent (db w)"
      using note_delete_tables [of "trim j" "db w" n s1] by simp_all
    from updateHost_requests_after_storage [OF assms t, of env NOTE_DELETE "One n"] u e
    show ?thesis by auto
  qed
qed

theorem C2_witness:
  "session example_ctx = Some example_session \<and>
   new_URL example_env (ascii ''https://example.com/hook'') =
     Some (ascii ''https://example.com/hook'') \<and>
   outbox (snd (updateWebhook example_env (ascii ''https://example.com/hook'') NOTE_CREATE
                  (Many []) example_world)) =
     [\<lparr>url = ascii ''https://example.com/hook'', http_method = ''POST'',
       headers = [(''Content-Type'', ''application/json'')],
       body = JSON_object
         [(''type'', JSON_string ''NOTE_CREATE''),
          (''timestamp'', JSON_number 1700000000000),
          (''data'', JSON_value (Many []))]\<rparr>] \<and>
   outbox (snd (addNote example_env example_ctx (ascii ''n1'') example_world)) =
     [\<lparr>url = ascii ''https://example.com/hook'', http_method = ''POST'',
       headers = [(''Content-Type'', ''application/json'')],
       body = JSON_object
         [(''type'', JSON_string ''NOTE_CREATE''),
          (''timestamp'', JSON_number 1700000000000),
          (''data'', JSON_value (One (created_note example_env (ascii ''n1''))))]\<rparr>]"
proof -
  have h1: "session example_ctx = Some example_session"
    by (simp add: example_ctx_def)
  have h2: "new_URL example_env (ascii ''https://example.com/hook'') =
     Some (ascii ''https://example.com/hook'')"
    by (simp add: example_env_def)
  have h3: "outbox example_world = [] \<and> Date_now example_env = 1700000000000"
    by (simp add: example_world_def example_env_def)
  have h4: "outbox (snd (addNote example_env example_ctx (ascii ''n1'') example_world)) =
     [\<lparr>url = ascii ''https://example.com/hook'', http_method = ''POST'',
       headers = [(''Content-Type'', ''application/json'')],
       body = JSON_object
         [(''type'', JSON_string ''NOTE_CREATE''),
          (''timestamp'', JSON_number 1700000000000),
          (''data'', JSON_value (One (created_note example_env (ascii ''n1''))))]\<rparr>]"
    by (simp add: example_defs eval_defs created_note_def)
  show ?thesis
    using h1 h2 h3 h4
      C2_post_shape [OF h1, of example_env "ascii ''https://example.com/hook''"
        "ascii ''https://example.com/hook''" NOTE_CREATE "Many []" example_world
        "ascii ''n1''" "[]" "[]" "[]"]
    by simp
qed

text \<open>
  Claim C3. For a signed-in caller and a store with valid URLs, each note procedure whose
  storage operation completes returns the storage result and leaves the store as the storage
  operation left it, whatever \<^verbatim>\<open>fetch\<close> does (the statement holds for every environment):
  the created note for \<^verbatim>\<open>addNote\<close>, \<open>True\<close> for \<^verbatim>\<open>updateNote\<close> and \<^verbatim>\<open>deleteNote\<close>, the list
  of notes for \<^verbatim>\<open>findAllNotes\<close>. No procedure hands more than one request to \<^verbatim>\<open>fetch\<close>
  (nothing is retried). A rejected \<^verbatim>\<open>fetch\<close> or a response outside 200..299 only adds one
  line to the console (\<open>failure_log\<close>), and \<^verbatim>\<open>updateWebhook\<close> still returns normally.
\<close>

theorem C3_notification_failure_isolated:
  assumes "session ctx = Some s" and "URLs_valid env (db w)"
  shows
    "(trim input \<noteq> [] \<longrightarrow>
        fst (addNote env ctx input w) = Inr (created_note env input) \<and>
        db (snd (addNote env ctx input w)) =
          (db w)\<lparr>note_table := note_table (db w) @ [created_note env input]\<rparr>) \<and>
     (2 \<le> length (trim d) \<and> note_update (trim i) (trim d) (db w) = Inr (n, s1) \<longrightarrow>
        fst (updateNote env ctx (i, d) w) = Inr True \<and>
        db (snd (updateNote env ctx (i, d) w)) = s1) \<and>
     (fst (findAllNotes env ctx w) = Inr (note_table (db w)) \<and>
      db (snd (findAllNotes env ctx w)) = db w) \<and>
     (trim j \<noteq> [] \<and> note_delete (trim j) (db w) = Inr (m, s2) \<longrightarrow>
        fst (deleteNote env ctx j w) = Inr True \<and>
        db (snd (deleteNote env ctx j w)) = s2) \<and>
     (\<exists>rs. outbox (snd (addNote env ctx input w)) = outbox w @ rs \<and> length rs \<le> 1) \<and>
     (\<exists>rs. outbox (snd (updateNote env ctx (i, d) w)) = outbox w @ rs \<and> length rs \<le> 1) \<and>
     (\<exists>rs. outbox (snd (findAllNotes env ctx w)) = outbox w @ rs \<and> length rs \<le> 1) \<and>
     (\<exists>rs. outbox (snd (deleteNote env ctx j w)) = outbox w @ rs \<and> length rs \<le> 1) \<and>
     (new_URL env u = Some h \<longrightarrow>
        updateWebhook env u type dat w =
          (Inr (),
           w\<lparr>outbox := outbox w @ [webhook_request env h type dat],
             console := console w @
               failure_log (fetch env (webhook_request env h type dat))\<rparr>))"
proof (intro conjI impI)
  show "fst (addNote env ctx input w) = Inr (created_note env input)" if "trim input \<noteq> []"
    using assms that by (simp add: addNote_returns created_note_def)
  show "db (snd (addNote env ctx input w)) =
          (db w)\<lparr>note_table := note_table (db w) @ [created_note env input]\<rparr>"
    if "trim input \<noteq> []"
    using assms that by (simp add: addNote_world updateHost_db created_note_def)
  show "fst (updateNote env ctx (i, d) w) = Inr True"
    if a: "2 \<le> length (trim d) \<and> note_update (trim i) (trim d) (db w) = Inr (n, s1)"
  proof -
    from a have "webhookInfo s1 = webhookInfo (db w)"
      using note_update_tables [of "trim i" "trim d" "db w" n s1] by simp
    with assms(2) have "URLs_valid env s1"
      using URLs_valid_tables [of s1 "db w" env] by simp
    with assms(1) a show ?thesis
      using updateNote_returns [of ctx s "(i, d)" w n s1 env] by simp
  qed
  show "db (snd (updateNote env ctx (i, d) w)) = s1"
    if a: "2 \<le> length (trim d) \<and> note_update (trim i) (trim d) (db w) = Inr (n, s1)"
    using assms(1) a updateNote_world [of ctx s "(i, d)" w n s1 env]
    by (simp add: updateHost_db)
  show "fst (findAllNotes env ctx w) = Inr (note_table (db w))"
    using assms by (rule findAllNotes_returns)
  show "db (snd (findAllNotes env ctx w)) = db w"
    using assms(1) by (simp add: findAllNotes_world updateHost_db)
  show "fst (deleteNote env ctx j w) = Inr True"
    if a: "trim j \<noteq> [] \<and> note_delete (trim j) (db w) = Inr (m, s2)"
  proof -
    from a have "webhookInfo s2 = webhookInfo (db w)"
      using note_delete_tables [of "trim j" "db w" m s2] by simp
    with assms(2) have "URLs_valid env s2"
      using URLs_valid_tables [of s2 "db w" env] by simp
    with assms(1) a show ?thesis
      using deleteNote_returns [of ctx s j w m s2 env] by simp
  qed
  show "db (snd (deleteNote env ctx j w)) = s2"
    if a: "trim j \<noteq> [] \<and> note_delete (trim j) (db w) = Inr (m, s2)"
    using assms(1) a deleteNote_world [of ctx s j w m s2 env]
    by (simp add: updateHost_db)
  show "\<exists>rs. outbox (snd (addNote env ctx input w)) = outbox w @ rs \<and> length rs \<le> 1"
    by (rule addNote_outbox_grows)
  show "\<exists>rs. outbox (snd (updateNote env ctx (i, d) w)) = outbox w @ rs \<and> length rs \<le> 1"
    by (rule updateNote_outbox_grows)
  show "\<exists>rs. outbox (snd (findAllNotes env ctx w)) = outbox w @ rs \<and> length rs \<le> 1"
    by (rule findAllNotes_outbox_grows)
  show "\<exists>rs. outbox (snd (deleteNote env ctx j w)) = outbox w @ rs \<and> length rs \<le> 1"
    by (rule deleteNote_outbox_grows)
  show "updateWebhook env u type dat w =
          (Inr (),
           w\<lparr>outbox := outbox w @ [webhook_request env h type dat],
             console := console w @
               failure_log (fetch env (webhook_request env h type dat))\<rparr>)"
    if "new_URL env u = Some h"
    using that by (rule updateWebhook_valid)
qed

theorem C3_witness:
  "session example_ctx = Some example_session \<and>
   URLs_valid example_env (db example_world) \<and>
   trim (ascii ''n1'') \<noteq> [] \<and>
   fetch example_env
     (webhook_request example_env (ascii ''https://example.com/hook'') NOTE_CREATE
        (One (created_note example_env (ascii ''n1'')))) =
     Response 500 (ascii ''Internal Server Error'') \<and>
   addNote example_env example_ctx (ascii ''n1'') example_world =
     (Inr (created_note example_env (ascii ''n1'')),
      \<lparr>db = (db example_world)
              \<lparr>note_table := note_table (db example_world) @
                 [created_note example_env (ascii ''n1'')]\<rparr>,
       outbox = [webhook_request example_env (ascii ''https://example.com/hook'') NOTE_CREATE
                   (One (created_note example_env (ascii ''n1'')))],
       console = [Webhook_request_failed 500 (ascii ''Internal Server Error'')]\<rparr>)"
proof -
  have h1: "session example_ctx = Some example_session"
    by (simp add: example_ctx_def)
  have h2: "URLs_valid example_env (db example_world)"
    by (simp add: URLs_valid_def example_env_def example_world_def)
  have h3: "trim (ascii ''n1'') \<noteq> []"
    by (simp add: ascii_def trim_def js_whitespace_def)
  have h4: "fetch example_env
     (webhook_request example_env (ascii ''https://example.com/hook'') NOTE_CREATE
        (One (created_note example_env (ascii ''n1'')))) =
     Response 500 (ascii ''Internal Server Error'')"
    by (simp add: example_env_def)
  have h5: "snd (addNote example_env example_ctx (ascii ''n1'') example_world) =
     \<lparr>db = (db example_world)
              \<lparr>note_table := note_table (db example_world) @
                 [created_note example_env (ascii ''n1'')]\<rparr>,
       outbox = [webhook_request example_env (ascii ''https://example.com/hook'') NOTE_CREATE
                   (One (created_note example_env (ascii ''n1'')))],
       console = [Webhook_request_failed 500 (ascii ''Internal Server Error'')]\<rparr>"
    by (simp add: example_defs eval_defs created_note_def webhook_request_def)
  show ?thesis
    using h1 h2 h3 h4 h5
      C3_notification_failure_isolated [OF h1 h2, of "ascii ''n1''" "[]" "[]" "created_note example_env []" "db example_world" "[]" "created_note example_env []" "db example_world" "[]" "[]" NOTE_CREATE "Many []"]
    by (simp add: prod_eq_iff)
qed

text \<open>
  Claim C4. For a signed-in caller: when the trimmed input is not empty (and the store's URLs
  are valid), \<^verbatim>\<open>addNote\<close> returns a note whose \<^verbatim>\<open>data\<close> is the trimmed input and whose title
  is the default one, and that note is appended to the note table; when the trimmed input is
  empty, \<^verbatim>\<open>addNote\<close> fails with the input error and the world is unchanged, so nothing is
  created.
\<close>

theorem C4_create_body:
  assumes "session ctx = Some s"
  shows "(trim input \<noteq> [] \<and> URLs_valid env (db w) \<longrightarrow>
            (\<exists>n. fst (addNote env ctx input w) = Inr n \<and> data n = trim input \<and>
                 title n = ascii ''Some title'' \<and>
                 note_table (db (snd (addNote env ctx input w))) = note_table (db w) @ [n])) \<and>
         (trim input = [] \<longrightarrow>
            addNote env ctx input w = (Inl (InputError (too_small 1)), w))"
proof (intro conjI impI)
  assume a: "trim input \<noteq> [] \<and> URLs_valid env (db w)"
  with assms have r: "fst (addNote env ctx input w) = Inr (created_note env input)"
    by (simp add: addNote_returns created_note_def)
  from a assms have "db (snd (addNote env ctx input w)) =
      (db w)\<lparr>note_table := note_table (db w) @ [created_note env input]\<rparr>"
    by (simp add: addNote_world updateHost_db created_note_def)
  with r show "\<exists>n. fst (addNote env ctx input w) = Inr n \<and> data n = trim input \<and>
                 title n = ascii ''Some title'' \<and>
                 note_table (db (snd (addNote env ctx input w))) = note_table (db w) @ [n]"
    by (simp add: created_note_def)
next
  assume "trim input = []"
  with assms show "addNote env ctx input w = (Inl (InputError (too_small 1)), w)"
    by (rule addNote_invalid)
qed

theorem C4_witness:
  "session example_ctx = Some example_session \<and>
   trim (ascii '' n1 '') = ascii ''n1'' \<and>
   URLs_valid example_env (db example_world) \<and>
   (\<exists>n. fst (addNote example_env example_ctx (ascii '' n1 '') example_world) = Inr n \<and>
        data n = ascii ''n1'') \<and>
   trim (ascii ''  '') = [] \<and>
   addNote example_env example_ctx (ascii ''  '') example_world =
     (Inl (InputError (too_small 1)), example_world)"
proof -
  have h1: "session example_ctx = Some example_session"
    by (simp add: example_ctx_def)
  have h2: "trim (ascii '' n1 '') = ascii ''n1''"
    by (simp add: ascii_def trim_def js_whitespace_def)
  have h3: "URLs_valid example_env (db example_world)"
    by (simp add: URLs_valid_def example_env_def example_world_def)
  have h4: "trim (ascii ''  '') = []"
    by (simp add: ascii_def trim_def js_whitespace_def)
  have h5: "ascii ''n1'' \<noteq> []"
    by (simp add: ascii_def)
  show ?thesis
    using h1 h2 h3 h4 h5
      C4_create_body [OF h1, of "ascii '' n1 ''" example_env example_world]
      C4_create_body [OF h1, of "ascii ''  ''" example_env example_world]
    by auto
qed

text \<open>
  Claim C5. For a signed-in caller, an \<^verbatim>\<open>updateNote\<close> request whose body has trimmed length
  below 2 fails with the input error, and the world is unchanged: the stored note is as it
  was and no request is handed to \<^verbatim>\<open>fetch\<close>.
\<close>

theorem C5_short_update_rejected:
  assumes "session ctx = Some s" and "length (trim d) < 2"
  shows "updateNote env ctx (i, d) w = (Inl (InputError (too_small 2)), w)"
  using assms by (simp add: updateNote_invalid)

theorem C5_witness:
  "session example_ctx = Some example_session \<and> length (trim (ascii '' x '')) < 2 \<and>
   updateNote example_env example_ctx (ascii ''n1'', ascii '' x '') example_world =
     (Inl (InputError (too_small 2)), example_world)"
proof -
  have h1: "session example_ctx = Some example_session"
    by (simp add: example_ctx_def)
  have h2: "length (trim (ascii '' x '')) < 2"
    by (simp add: ascii_def trim_def js_whitespace_def)
  show ?thesis
    using h1 h2 C5_short_update_rejected [OF h1 h2, of example_env "ascii ''n1''" example_world]
    by simp
qed

text \<open>
  Claim C6, as amended. For a signed-in caller: an \<^verbatim>\<open>updateNote\<close> request whose body passes
  validation (trimmed length at least 2) and whose trimmed id is the \<^verbatim>\<open>ID\<close> of no stored note
  fails with the store's record-not-found error; a \<^verbatim>\<open>deleteNote\<close> request whose trimmed id
  is not empty and is the \<^verbatim>\<open>ID\<close> of no stored note fails with the same error. In both cases
  the world is unchanged: no note is created, mutated or removed.

  The claim as stated, for every id as given, fails in two ways. The input parser rejects a
  request before the store is asked: \<^verbatim>\<open>deleteNote\<close> with an id that is empty after trimming,
  and \<^verbatim>\<open>updateNote\<close> with a body shorter than 2, fail with the input error instead. And the
  parser trims the id: an id that is no stored \<^verbatim>\<open>ID\<close> as given but is one after trimming
  addresses that note, which is then deleted or updated. The counterexample below evaluates
  each of these.
\<close>

theorem C6_missing_note_rejected:
  assumes "session ctx = Some s"
  shows "(2 \<le> length (trim d) \<and> trim i \<notin> ID ` set (note_table (db w)) \<longrightarrow>
            updateNote env ctx (i, d) w = (Inl RecordNotFound, w)) \<and>
         (trim j \<noteq> [] \<and> trim j \<notin> ID ` set (note_table (db w)) \<longrightarrow>
            deleteNote env ctx j w = (Inl RecordNotFound, w))"
  using assms
  by (simp add: updateNote_missing deleteNote_missing note_update_missing note_delete_missing)

theorem C6_witness:
  "session example_ctx = Some example_session \<and>
   2 \<le> length (trim (ascii ''second'')) \<and>
   trim (ascii ''n9'') \<noteq> [] \<and>
   trim (ascii ''n9'') \<notin> ID ` set (note_table (db example_world)) \<and>
   updateNote example_env example_ctx (ascii ''n9'', ascii ''second'') example_world =
     (Inl RecordNotFound, example_world) \<and>
   deleteNote example_env example_ctx (ascii ''n9'') example_world =
     (Inl RecordNotFound, example_world)"
proof -
  have h1: "session example_ctx = Some example_session"
    by (simp add: example_ctx_def)
  have h2: "2 \<le> length (trim (ascii ''second''))"
    by (simp add: ascii_def trim_def js_whitespace_def)
  have h3: "trim (ascii ''n9'') \<noteq> []"
    by (simp add: ascii_def trim_def js_whitespace_def)
  have h4: "trim (ascii ''n9'') \<notin> ID ` set (note_table (db example_world))"
    by (simp add: ascii_def trim_def js_whitespace_def example_world_def)
  show ?thesis
    using h1 h2 h3 h4
      C6_missing_note_rejected [OF h1, of "ascii ''second''" "ascii ''n9''" example_world
        example_env "ascii ''n9''"]
    by simp
qed

theorem C6_counterexample:
  "session example_ctx = Some example_session \<and>
   [] \<notin> ID ` set (note_table (db example_world)) \<and>
   deleteNote example_env example_ctx [] example_world =
     (Inl (InputError (too_small 1)), example_world) \<and>
   fst (deleteNote example_env example_ctx [] example_world) \<noteq> Inl RecordNotFound \<and>
   ascii ''n9'' \<notin> ID ` set (note_table (db example_world)) \<and>
   updateNote example_env example_ctx (ascii ''n9'', ascii ''x'') example_world =
     (Inl (InputError (too_small 2)), example_world) \<and>
   fst (updateNote example_env example_ctx (ascii ''n9'', ascii ''x'') example_world) \<noteq>
     Inl RecordNotFound \<and>
   ascii '' n1 '' \<notin> ID ` set (note_table (db example_world)) \<and>
   fst (deleteNote example_env example_ctx (ascii '' n1 '') example_world) = Inr True \<and>
   note_table (db (snd (deleteNote example_env example_ctx (ascii '' n1 '') example_world))) =
     [] \<and>
   fst (updateNote example_env example_ctx (ascii '' n1 '', ascii ''second'') example_world) =
     Inr True \<and>
   map data (note_table (db (snd (updateNote example_env example_ctx
       (ascii '' n1 '', ascii ''second'') example_world)))) = [ascii ''second'']"
proof -
  have d: "deleteNote example_env example_ctx [] example_world =
     (Inl (InputError (too_small 1)), example_world)"
    by (simp add: deleteNote_def protectedProcedure_def example_ctx_def z_string_trim_min_def
          trim_def)
  have u: "updateNote example_env example_ctx (ascii ''n9'', ascii ''x'') example_world =
     (Inl (InputError (too_small 2)), example_world)"
    by (simp add: updateNote_def protectedProcedure_def example_ctx_def z_string_trim_min_def
          z_string_trim_def trim_def ascii_def js_whitespace_def)
  have n: "[] \<notin> ID ` set (note_table (db example_world)) \<and>
           ascii ''n9'' \<notin> ID ` set (note_table (db example_world)) \<and>
           ascii '' n1 '' \<notin> ID ` set (note_table (db example_world))"
    by (simp add: example_world_def ascii_def)
  have d2: "fst (deleteNote example_env example_ctx (ascii '' n1 '') example_world) = Inr True"
    by (simp add: example_defs eval_defs)
  have d3: "note_table (db (snd (deleteNote example_env example_ctx (ascii '' n1 '')
      example_world))) = []"
    by (simp add: example_defs eval_defs)
  have u2: "fst (updateNote example_env example_ctx (ascii '' n1 '', ascii ''second'')
      example_world) = Inr True"
    by (simp add: example_defs eval_defs)
  have u3: "map data (note_table (db (snd (updateNote example_env example_ctx
       (ascii '' n1 '', ascii ''second'') example_world)))) = [ascii ''second'']"
    by (simp add: example_defs eval_defs)
  show ?thesis
    using d u n d2 d3 u2 u3 by (simp add: example_ctx_def)
qed

text \<open>
  Claim C7. For a signed-in caller with no row in the \<^verbatim>\<open>webhookInfo\<close> table, \<^verbatim>\<open>setEvent\<close>
  fails with the BAD_REQUEST error whose message is \<^verbatim>\<open>Webhook host not configured\<close> and the
  world is unchanged, so no event setting is created; \<^verbatim>\<open>getEvents\<close> in the same world returns
  the empty list and does not fail.
\<close>

theorem C7_event_toggle_needs_config:
  assumes "session ctx = Some s" and "webhookInfo_find (user_id s) (db w) = None"
  shows "setEvent env ctx input w =
           (Inl (TRPCError BAD_REQUEST ''Webhook host not configured''), w) \<and>
         getEvents ctx w = (Inr [], w)"
  using assms by (simp add: setEvent_def getEvents_def protectedProcedure_def)

theorem C7_witness:
  "session example_ctx = Some example_session \<and>
   webhookInfo_find (user_id example_session) (db empty_world) = None \<and>
   setEvent example_env example_ctx (NOTE_CREATE, True) empty_world =
     (Inl (TRPCError BAD_REQUEST ''Webhook host not configured''), empty_world) \<and>
   getEvents example_ctx empty_world = (Inr [], empty_world)"
proof -
  have h1: "session example_ctx = Some example_session"
    by (simp add: example_ctx_def)
  have h2: "webhookInfo_find (user_id example_session) (db empty_world) = None"
    by (simp add: webhookInfo_find_def empty_world_def)
  show ?thesis
    using h1 h2 C7_event_toggle_needs_config [OF h1 h2, of example_env "(NOTE_CREATE, True)"]
    by simp
qed

text \<open>
  Claim C8. The store invariant (at most one \<^verbatim>\<open>webhookInfo\<close> row per user, at most one
  \<^verbatim>\<open>webhookEvent\<close> row per pair of configuration and event kind, every \<^verbatim>\<open>webhookEvent\<close> row
  referring to an existing \<^verbatim>\<open>webhookInfo\<close> row) holds after any sequence of procedure calls
  from the empty store, and is kept by any sequence from a store where it holds. Setting the
  same URL twice leaves the store as the first call left it, with exactly one configuration
  row for the user, holding that URL. After \<^verbatim>\<open>setEvent\<close> for a kind, \<^verbatim>\<open>getEvents\<close> shows
  exactly one setting of that kind, with the value just set; a second \<^verbatim>\<open>setEvent\<close> for the
  same kind changes that row in place (the table keeps its length) and \<^verbatim>\<open>getEvents\<close> shows
  only the later value.
\<close>

theorem C8_store_uniqueness:
  "store_invariant (db (calls cs empty_world)) \<and>
   (store_invariant (db w) \<longrightarrow> store_invariant (db (calls cs w))) \<and>
   (store_invariant (db w) \<and> session ctx = Some s \<and>
    new_URL env u \<noteq> None \<and> new_URL env' u \<noteq> None \<longrightarrow>
      db (snd (setWebhookURL env' ctx u (snd (setWebhookURL env ctx u w)))) =
        db (snd (setWebhookURL env ctx u w)) \<and>
      (\<exists>c. filter (\<lambda>i. userID i = user_id s)
              (webhookInfo (db (snd (setWebhookURL env ctx u w)))) = [c] \<and>
           hostURL c = u)) \<and>
   (store_invariant (db w) \<and> session ctx = Some s \<and>
    webhookInfo_find (user_id s) (db w) = Some info \<longrightarrow>
      (\<exists>es. fst (getEvents ctx (snd (setEvent env ctx (ev, en) w))) = Inr es \<and>
            map enabled (filter (\<lambda>e. event e = ev) es) = [en]) \<and>
      (\<exists>es. fst (getEvents ctx (snd (setEvent env' ctx (ev, en')
                                      (snd (setEvent env ctx (ev, en) w))))) = Inr es \<and>
            map enabled (filter (\<lambda>e. event e = ev) es) = [en']) \<and>
      length (webhookEvent (db (snd (setEvent env' ctx (ev, en')
                                      (snd (setEvent env ctx (ev, en) w)))))) =
        length (webhookEvent (db (snd (setEvent env ctx (ev, en) w)))))"
proof (intro conjI impI)
  show "store_invariant (db (calls cs empty_world))"
    using empty_world_invariant by (rule calls_invariant)
  show "store_invariant (db (calls cs w))" if "store_invariant (db w)"
    using that by (rule calls_invariant)
next
  assume a: "store_invariant (db w) \<and> session ctx = Some s \<and>
    new_URL env u \<noteq> None \<and> new_URL env' u \<noteq> None"
  then have i: "db (snd (setWebhookURL env' ctx u (snd (setWebhookURL env ctx u w)))) =
           db (snd (setWebhookURL env ctx u w)) \<and>
         (\<exists>c. filter (\<lambda>i. userID i = user_id s)
                 (webhookInfo (db (snd (setWebhookURL env ctx u w)))) = [c] \<and>
              hostURL c = u)"
    using setWebhookURL_idempotent [of ctx s env u env' w] by blast
  from i show "db (snd (setWebhookURL env' ctx u (snd (setWebhookURL env ctx u w)))) =
        db (snd (setWebhookURL env ctx u w))" ..
  from i show "\<exists>c. filter (\<lambda>i. userID i = user_id s)
              (webhookInfo (db (snd (setWebhookURL env ctx u w)))) = [c] \<and>
           hostURL c = u" ..
next
  assume a: "store_invariant (db w) \<and> session ctx = Some s \<and>
    webhookInfo_find (user_id s) (db w) = Some info"
  then have inv: "store_invariant (db w)" and ses: "session ctx = Some s"
    and cfg: "webhookInfo_find (user_id s) (db w) = Some info"
    by blast+
  let ?w1 = "snd (setEvent env ctx (ev, en) w)"
  show "\<exists>es. fst (getEvents ctx ?w1) = Inr es \<and>
            map enabled (filter (\<lambda>e. event e = ev) es) = [en]"
    using inv ses cfg by (rule setEvent_latest)
  have inv1: "store_invariant (db ?w1)"
    using inv by (rule setEvent_invariant)
  have cfg1: "webhookInfo_find (user_id s) (db ?w1) = Some info"
    using cfg unfolding webhookInfo_find_def setEvent_keeps_config .
  show "\<exists>es. fst (getEvents ctx (snd (setEvent env' ctx (ev, en') ?w1))) = Inr es \<and>
            map enabled (filter (\<lambda>e. event e = ev) es) = [en']"
    using inv1 ses cfg1 by (rule setEvent_latest)
  show "length (webhookEvent (db (snd (setEvent env' ctx (ev, en') ?w1)))) =
        length (webhookEvent (db ?w1))"
    using ses cfg by (rule setEvent_in_place)
qed

theorem C8_witness:
  "store_invariant (db example_world) \<and>
   session example_ctx = Some example_session \<and>
   new_URL example_env (ascii ''https://example.com/hook'') \<noteq> None \<and>
   webhookInfo_find (user_id example_session) (db example_world) =
     Some \<lparr>info_ID = ascii ''w1'', userID = ascii ''u1'',
           hostURL = ascii ''https://example.com/hook''\<rparr> \<and>
   store_invariant
     (db (calls [(example_env, example_ctx, SetWebhookURL (ascii ''https://example.com/hook'')),
                 (example_env, example_ctx, SetEvent (NOTE_CREATE, True)),
                 (example_env, example_ctx, SetEvent (NOTE_CREATE, False))] example_world)) \<and>
   db (snd (setWebhookURL example_env example_ctx (ascii ''https://example.com/hook'')
         (snd (setWebhookURL example_env example_ctx (ascii ''https://example.com/hook'')
                 example_world)))) =
     db (snd (setWebhookURL example_env example_ctx (ascii ''https://example.com/hook'')
                example_world)) \<and>
   (\<exists>es. fst (getEvents example_ctx
                (snd (setEvent example_env example_ctx (NOTE_CREATE, True)
                   (snd (setEvent example_env example_ctx (NOTE_CREATE, False)
                           example_world))))) = Inr es \<and>
         map enabled (filter (\<lambda>e. event e = NOTE_CREATE) es) = [True])"
proof -
  have h1: "store_invariant (db example_world)"
    by (simp add: store_invariant_def example_world_def ascii_def)
  have h2: "session example_ctx = Some example_session"
    by (simp add: example_ctx_def)
  have h3: "new_URL example_env (ascii ''https://example.com/hook'') \<noteq> None"
    by (simp add: example_env_def)
  have h4: "webhookInfo_find (user_id example_session) (db example_world) =
     Some \<lparr>info_ID = ascii ''w1'', userID = ascii ''u1'',
           hostURL = ascii ''https://example.com/hook''\<rparr>"
    by (simp add: webhookInfo_find_def example_world_def example_session_def)
  show ?thesis
    using h1 h2 h3 h4
      C8_store_uniqueness [of
        "[(example_env, example_ctx, SetWebhookURL (ascii ''https://example.com/hook'')),
          (example_env, example_ctx, SetEvent (NOTE_CREATE, True)),
          (example_env, example_ctx, SetEvent (NOTE_CREATE, False))]"
        example_world example_ctx example_session example_env
        "ascii ''https://example.com/hook''" example_env
        "\<lparr>info_ID = ascii ''w1'', userID = ascii ''u1'',
          hostURL = ascii ''https://example.com/hook''\<rparr>"
        NOTE_CREATE False True]
    by blast
qed

text \<open>
  Claim C9. \<^verbatim>\<open>updateWebhook\<close> returns normally whenever its URL argument parses, whatever
  \<^verbatim>\<open>fetch\<close> does; when the URL does not parse, the constructor's error is the outcome and
  the world is unchanged, so nothing is logged. The notifier passes that error on to the
  procedure that called it.
\<close>

theorem C9_invalid_url_throws:
  "(new_URL env u \<noteq> None \<longrightarrow> fst (updateWebhook env u type dat w) = Inr ()) \<and>
   (new_URL env u = None \<longrightarrow> updateWebhook env u type dat w = (Inl Invalid_URL, w)) \<and>
   (session ctx = Some s \<and> enabled_config (db w) (user_id s) type = Some info \<and>
    new_URL env (hostURL info) = None \<longrightarrow>
      updateHost env ctx type dat w = (Inl Invalid_URL, w))"
  by (auto simp: updateWebhook_invalid updateWebhook_returns updateHost_enabled_config)

theorem C9_witness:
  "new_URL example_env (ascii ''https://example.com/hook'') \<noteq> None \<and>
   fst (updateWebhook example_env (ascii ''https://example.com/hook'') NOTE_CREATE (Many [])
          empty_world) = Inr () \<and>
   new_URL example_env (ascii ''example.com'') = None \<and>
   updateWebhook example_env (ascii ''example.com'') NOTE_CREATE (Many []) empty_world =
     (Inl Invalid_URL, empty_world) \<and>
   updateHost example_env example_ctx NOTE_CREATE (Many []) unparsable_world =
     (Inl Invalid_URL, unparsable_world) \<and>
   fst (addNote example_env example_ctx (ascii ''n1'') unparsable_world) = Inl Invalid_URL"
proof -
  have h1: "new_URL example_env (ascii ''https://example.com/hook'') \<noteq> None"
    by (simp add: example_env_def)
  have h2: "new_URL example_env (ascii ''example.com'') = None"
    by (simp add: example_env_def ascii_def)
  have h3: "session example_ctx = Some example_session"
    by (simp add: example_ctx_def)
  have h4: "enabled_config (db unparsable_world) (user_id example_session) NOTE_CREATE =
      Some \<lparr>info_ID = ascii ''w1'', userID = ascii ''u1'', hostURL = ascii ''example.com''\<rparr>"
    by (simp add: enabled_config_def webhookInfo_find_def webhookEvents_of_def
          unparsable_world_def example_session_def)
  have h5: "fst (addNote example_env example_ctx (ascii ''n1'') unparsable_world) =
      Inl Invalid_URL"
    by (simp add: example_defs unparsable_world_def eval_defs)
  show ?thesis
    using h1 h2 h3 h4 h5
      C9_invalid_url_throws [of example_env "ascii ''https://example.com/hook''" NOTE_CREATE
        "Many []" empty_world example_ctx example_session]
      C9_invalid_url_throws [of example_env "ascii ''example.com''" NOTE_CREATE
        "Many []" empty_world example_ctx example_session]
      C9_invalid_url_throws [of example_env "ascii ''example.com''" NOTE_CREATE
        "Many []" unparsable_world example_ctx example_session
        "\<lparr>info_ID = ascii ''w1'', userID = ascii ''u1'', hostURL = ascii ''example.com''\<rparr>"]
    by simp
qed

text \<open>
  Claim C10. Whenever \<^verbatim>\<open>updateNote\<close> or \<^verbatim>\<open>deleteNote\<close> returns normally, the value returned is
  \<open>True\<close>: neither ever returns \<open>False\<close>.
\<close>

theorem C10_success_is_true:
  "(fst (updateNote env ctx input w) = Inr b \<longrightarrow> b) \<and>
   (fst (deleteNote env ctx input' w) = Inr b' \<longrightarrow> b')"
  by (auto simp: updateNote_def deleteNote_def protectedProcedure_def truthy_def Let_def
           z_string_trim_def
           split: option.splits sum.splits prod.splits)

theorem C10_witness:
  "fst (updateNote example_env example_ctx (ascii '' n1'', ascii ''second '') example_world)
     = Inr True \<and>
   fst (deleteNote example_env example_ctx (ascii ''n1'') example_world) = Inr True"
proof -
  have u: "fst (updateNote example_env example_ctx (ascii '' n1'', ascii ''second '')
             example_world) = Inr True"
    by (simp add: example_defs eval_defs)
  have d: "fst (deleteNote example_env example_ctx (ascii ''n1'') example_world) = Inr True"
    by (simp add: example_defs eval_defs)
  show ?thesis
    using u d
      C10_success_is_true [of example_env example_ctx "(ascii '' n1'', ascii ''second '')"
        example_world True "ascii ''n1''" True]
    by simp
qed

end
